theory Spec2Isabelle
  imports Complex_Main
begin

section \<open>Values of the program\<close>

text \<open>
  The matrix is a JavaScript array of arrays. Its numbers are modelled as exact
  rationals (the rounding of IEEE doubles is not modelled). Besides numbers a slot
  can hold \<open>null\<close> (what \<open>JSON.stringify\<close> writes for a value that is not a finite
  number) and \<open>NaN\<close>. The constructor \<open>NaN\<close> also stands for \<open>undefined\<close> (a hole,
  or a read past the end of a row): the program never tells the two apart, since
  \<open>x || 0\<close> is 0 for both, \<open>x + change\<close> is \<open>NaN\<close> for both, every comparison with
  either is false, and \<open>JSON.stringify\<close> writes \<open>null\<close> for both.
\<close>

datatype cell = Num rat | Null | NaN

type_synonym matrix = "cell list list"

text \<open>An index is an integer, or \<open>None\<close> when it is absent (\<open>null\<close> or \<open>undefined\<close>).\<close>

type_synonym index = "int option"

text \<open>\<open>xs[i]\<close>: \<open>None\<close> is \<open>undefined\<close>, the value of a read outside the array.\<close>

definition js_nth :: "'a list \<Rightarrow> index \<Rightarrow> 'a option" where
  "js_nth xs i =
     (case i of
        None \<Rightarrow> None
      | Some j \<Rightarrow> if 0 \<le> j \<and> j < int (length xs) then Some (xs ! nat j) else None)"

text \<open>\<open>x || 0\<close> for the value of a matrix read.\<close>

fun or_zero :: "cell option \<Rightarrow> rat" where
  "or_zero (Some (Num x)) = x"
| "or_zero _ = 0"

text \<open>
  The label of an observation: the six symbols of the table, from the top tier (the
  crown) down to the lowest (the cross), or any other string. For a string that names
  a property every object inherits, the lookup in the table finds an object without
  \<open>min\<close> and \<open>max\<close>; both comparisons with \<open>undefined\<close> are then false, so such an
  observation adds nothing either, as when the lookup finds nothing.
\<close>

datatype symbol = Crown | Star | Bullseye | Circle | Triangle | Cross | Other string

record observation =
  obs_childId :: index
  obs_f :: index
  obs_ff :: index
  obs_fm :: index
  obs_m :: index
  obs_mf :: index
  obs_mm :: index
  obs_s3 :: rat
  obs_s2 :: rat
  obs_noble :: "rat option"
  correctSymbol :: symbol

record evaluation =
  penalty :: rat
  contradictions :: nat

record symbol_range =
  range_min :: rat
  range_max :: rat

section \<open>ScoreModel and PenaltyEvaluator\<close>

definition symbolRanges :: "symbol \<Rightarrow> symbol_range option" where
  "symbolRanges s =
     (case s of
        Crown \<Rightarrow> Some \<lparr>range_min = 660, range_max = 9999\<rparr>
      | Star \<Rightarrow> Some \<lparr>range_min = 614, range_max = 659\<rparr>
      | Bullseye \<Rightarrow> Some \<lparr>range_min = 490, range_max = 613\<rparr>
      | Circle \<Rightarrow> Some \<lparr>range_min = 374, range_max = 489\<rparr>
      | Triangle \<Rightarrow> Some \<lparr>range_min = 255, range_max = 373\<rparr>
      | Cross \<Rightarrow> Some \<lparr>range_min = 0, range_max = 254\<rparr>
      | Other _ \<Rightarrow> None)"

definition getComb :: "index \<Rightarrow> index \<Rightarrow> matrix \<Rightarrow> rat" where
  "getComb youngerIdx olderIdx currentMatrix =
     (if youngerIdx = None \<or> olderIdx = None then 0
      else case js_nth currentMatrix youngerIdx of
             None \<Rightarrow> 0
           | Some row \<Rightarrow> or_zero (js_nth row olderIdx))"

definition calculateScore ::
  "index \<Rightarrow> index \<Rightarrow> index \<Rightarrow> index \<Rightarrow> index \<Rightarrow> index \<Rightarrow> index \<Rightarrow>
   rat \<Rightarrow> rat \<Rightarrow> rat option \<Rightarrow> matrix \<Rightarrow> rat" where
  "calculateScore childId f ff fm m mf mm s3 s2 noble matchMatrix =
     (if list_ex (\<lambda>x. x = None) [childId, f, ff, fm, m, mf, mm] then 0
      else
        let term1 = getComb childId f matchMatrix;
            term2 = min (getComb f ff matchMatrix) (getComb childId ff matchMatrix);
            term3 = min (getComb f fm matchMatrix) (getComb childId fm matchMatrix);
            term4 = getComb childId m matchMatrix;
            term5 = min (getComb m mf matchMatrix) (getComb childId mf matchMatrix);
            term6 = min (getComb m mm matchMatrix) (getComb childId mm matchMatrix);
            term7 = getComb f m matchMatrix;
            base = 224;
            bonus = (s2 * 5) + (s3 * (25 / 2));
            nobleBonus = (case noble of None \<Rightarrow> 0 | Some n \<Rightarrow> n)
        in term1 + term2 + term3 + term4 + term5 + term6 + term7 + base + bonus + nobleBonus)"

definition getSymbol :: "rat \<Rightarrow> symbol" where
  "getSymbol score =
     (if score \<ge> 660 then Crown
      else if score \<ge> 614 then Star
      else if score \<ge> 490 then Bullseye
      else if score \<ge> 374 then Circle
      else if score \<ge> 255 then Triangle
      else Cross)"

definition score_of :: "matrix \<Rightarrow> observation \<Rightarrow> rat" where
  "score_of currentMatrix obs =
     calculateScore (obs_childId obs) (obs_f obs) (obs_ff obs) (obs_fm obs)
       (obs_m obs) (obs_mf obs) (obs_mm obs) (obs_s3 obs) (obs_s2 obs) (obs_noble obs)
       currentMatrix"

text \<open>
  The loop of \<open>evaluateError\<close>, with its two accumulators. The top tier is handled
  before the table lookup, and an observation without a range is passed over.
\<close>

fun evaluate_loop :: "matrix \<Rightarrow> observation list \<Rightarrow> rat \<Rightarrow> nat \<Rightarrow> evaluation" where
  "evaluate_loop currentMatrix [] totalPenalty contradictionCount =
     \<lparr>penalty = totalPenalty, contradictions = contradictionCount\<rparr>"
| "evaluate_loop currentMatrix (obs # rest) totalPenalty contradictionCount =
     (let score = score_of currentMatrix obs in
      if correctSymbol obs = Crown then
        (if score < 660
         then evaluate_loop currentMatrix rest
                (totalPenalty + (660 - score) ^ 2) (Suc contradictionCount)
         else evaluate_loop currentMatrix rest totalPenalty contradictionCount)
      else
        case symbolRanges (correctSymbol obs) of
          None \<Rightarrow> evaluate_loop currentMatrix rest totalPenalty contradictionCount
        | Some targetRange \<Rightarrow>
            if score < range_min targetRange
            then evaluate_loop currentMatrix rest
                   (totalPenalty + (range_min targetRange - score) ^ 2) (Suc contradictionCount)
            else if score > range_max targetRange
            then evaluate_loop currentMatrix rest
                   (totalPenalty + (score - range_max targetRange) ^ 2) (Suc contradictionCount)
            else evaluate_loop currentMatrix rest totalPenalty contradictionCount)"

definition evaluateError :: "matrix \<Rightarrow> observation list \<Rightarrow> evaluation" where
  "evaluateError currentMatrix observations = evaluate_loop currentMatrix observations 0 0"

text \<open>
  The repository holds a second, older \<open>evaluateError\<close> (in \<open>js/solver_logic.js\<close>),
  which has no case of its own for the top tier: every label goes through the table.
\<close>

fun evaluate_loop_legacy :: "matrix \<Rightarrow> observation list \<Rightarrow> rat \<Rightarrow> nat \<Rightarrow> evaluation" where
  "evaluate_loop_legacy currentMatrix [] totalPenalty contradictionCount =
     \<lparr>penalty = totalPenalty, contradictions = contradictionCount\<rparr>"
| "evaluate_loop_legacy currentMatrix (obs # rest) totalPenalty contradictionCount =
     (let score = score_of currentMatrix obs in
        case symbolRanges (correctSymbol obs) of
          None \<Rightarrow> evaluate_loop_legacy currentMatrix rest totalPenalty contradictionCount
        | Some targetRange \<Rightarrow>
            if score < range_min targetRange
            then evaluate_loop_legacy currentMatrix rest
                   (totalPenalty + (range_min targetRange - score) ^ 2) (Suc contradictionCount)
            else if score > range_max targetRange
            then evaluate_loop_legacy currentMatrix rest
                   (totalPenalty + (score - range_max targetRange) ^ 2) (Suc contradictionCount)
            else evaluate_loop_legacy currentMatrix rest totalPenalty contradictionCount)"

definition evaluateError_legacy :: "matrix \<Rightarrow> observation list \<Rightarrow> evaluation" where
  "evaluateError_legacy currentMatrix observations =
     evaluate_loop_legacy currentMatrix observations 0 0"

section \<open>LocalSearchOptimizer\<close>

subsection \<open>Copies, reads and writes of the matrix\<close>

text \<open>\<open>JSON.parse(JSON.stringify(m))\<close>: numbers and \<open>null\<close> are kept, anything else in an
  array becomes \<open>null\<close>.\<close>

fun json_cell :: "cell \<Rightarrow> cell" where
  "json_cell NaN = Null"
| "json_cell c = c"

definition json_copy :: "matrix \<Rightarrow> matrix" where
  "json_copy mat = map (map json_cell) mat"

record optimizer =
  originalMatrix :: matrix
  matrix :: matrix

definition CompatibilityOptimizer :: "matrix \<Rightarrow> optimizer" where
  "CompatibilityOptimizer initialMatrix =
     \<lparr>originalMatrix = json_copy initialMatrix, matrix = json_copy initialMatrix\<rparr>"

datatype error = TypeError

text \<open>\<open>row[c]\<close> as a value: a missing slot reads \<open>undefined\<close>.\<close>

definition slot :: "cell list \<Rightarrow> index \<Rightarrow> cell" where
  "slot row c = (case js_nth row c of None \<Rightarrow> NaN | Some v \<Rightarrow> v)"

text \<open>\<open>mat[r][c]\<close> as a value: a missing row makes the read throw.\<close>

definition read_cell :: "matrix \<Rightarrow> index \<Rightarrow> index \<Rightarrow> error + cell" where
  "read_cell mat r c =
     (case js_nth mat r of
        None \<Rightarrow> Inl TypeError
      | Some row \<Rightarrow> Inr (slot row c))"

text \<open>\<open>row[c] = v\<close>: a write past the end extends the array, leaving holes; a write at
  an absent or negative index sets a property and leaves the elements alone.\<close>

definition set_nth :: "cell list \<Rightarrow> index \<Rightarrow> cell \<Rightarrow> cell list" where
  "set_nth row c v =
     (case c of
        None \<Rightarrow> row
      | Some j \<Rightarrow>
          if j < 0 then row
          else if nat j < length row then row[nat j := v]
          else row @ replicate (nat j - length row) NaN @ [v])"

text \<open>\<open>mat[r][c] = v\<close>, which the program only executes after \<open>mat[r][c]\<close> was read, so
  row \<open>r\<close> exists.\<close>

definition write_cell :: "matrix \<Rightarrow> index \<Rightarrow> index \<Rightarrow> cell \<Rightarrow> matrix" where
  "write_cell mat r c v =
     (case r of
        None \<Rightarrow> mat
      | Some i \<Rightarrow>
          if 0 \<le> i \<and> i < int (length mat)
          then mat[nat i := set_nth (mat ! nat i) c v]
          else mat)"

subsection \<open>Numbers that may be NaN\<close>

text \<open>A JavaScript number in the arithmetic of the loop: \<open>None\<close> is \<open>NaN\<close>. In
  arithmetic \<open>null\<close> counts as 0 and \<open>undefined\<close> as \<open>NaN\<close>.\<close>

type_synonym number = "rat option"

fun to_number :: "cell \<Rightarrow> number" where
  "to_number (Num x) = Some x"
| "to_number Null = Some 0"
| "to_number NaN = None"

fun of_number :: "number \<Rightarrow> cell" where
  "of_number (Some x) = Num x"
| "of_number None = NaN"

fun js_less :: "number \<Rightarrow> number \<Rightarrow> bool" where
  "js_less (Some x) (Some y) = (x < y)"
| "js_less _ _ = False"

fun js_plus :: "number \<Rightarrow> rat \<Rightarrow> number" where
  "js_plus (Some x) y = Some (x + y)"
| "js_plus None y = None"

subsection \<open>One iteration\<close>

definition MOTION_LIMIT :: rat where
  "MOTION_LIMIT = 20"

text \<open>
  The perturbation and the motion limit: from the value of the cell, the value of the
  same cell in \<open>originalMatrix\<close> and the signed step, the value to write, or \<open>None\<close>
  when the iteration is abandoned by \<open>continue\<close>.
\<close>

definition limit_move :: "cell \<Rightarrow> cell \<Rightarrow> rat \<Rightarrow> cell option" where
  "limit_move current baseValue change =
     (let newValue = js_plus (to_number current) change;
          newValue = (if js_less newValue (Some 0) then Some 0 else newValue);
          minLimit = js_plus (to_number baseValue) (- MOTION_LIMIT);
          maxLimit = js_plus (to_number baseValue) MOTION_LIMIT;
          minLimit = (if js_less minLimit (Some 0) then Some 0 else minLimit)
      in
        if js_less newValue minLimit \<or> js_less maxLimit newValue then
          if js_less newValue minLimit \<and> js_less newValue (to_number current) then None
          else if js_less maxLimit newValue \<and> js_less (to_number current) newValue then None
          else
            let newValue = (if js_less newValue minLimit then minLimit else newValue);
                newValue = (if js_less maxLimit newValue then maxLimit else newValue)
            in Some (of_number newValue)
        else Some (of_number newValue))"

text \<open>
  The state of the loop. \<open>currentEval\<close> and \<open>bestEval\<close> are references to objects:
  \<open>shared\<close> records whether they are the same object, which matters once the progress
  callback is handed \<open>currentEval\<close>. \<open>calls\<close> counts the calls of \<open>Math.random\<close>.
\<close>

record search_state =
  currentMatrix :: matrix
  currentEval :: evaluation
  bestMatrix :: matrix
  bestEval :: evaluation
  shared :: bool
  calls :: nat

text \<open>
  The source of randomness: \<open>random k\<close> is what the \<open>k\<close>-th call of \<open>Math.random\<close>
  returns, a number in \<open>[0, 1)\<close>.
\<close>

type_synonym rng = "nat \<Rightarrow> rat"

definition unit_range :: "rng \<Rightarrow> bool" where
  "unit_range random = (\<forall>k. 0 \<le> random k \<and> random k < 1)"

definition random_index :: "rat \<Rightarrow> nat \<Rightarrow> index" where
  "random_index x n = Some \<lfloor>x * of_nat n\<rfloor>"

text \<open>The choice of the cell; the result carries the number of calls of \<open>Math.random\<close>
  made so far. On integers \<open>i < iterations * 0.5\<close> is \<open>2 * i < iterations\<close>.\<close>

definition select_cell ::
  "rng \<Rightarrow> nat \<Rightarrow> nat \<Rightarrow> nat \<Rightarrow> int list \<Rightarrow> nat \<Rightarrow> nat \<Rightarrow> (index \<times> index) \<times> nat" where
  "select_cell random k i iterations priorityBloodlines numRows numCols =
     (let isPhase1 = (2 * i < iterations);
          usePriority = (isPhase1 \<and> length priorityBloodlines > 0)
      in
        if usePriority \<and> random k < 4 / 5 then
          let pIdx = js_nth priorityBloodlines
                       (random_index (random (k + 1)) (length priorityBloodlines))
          in
            if random (k + 2) < 1 / 2
            then ((pIdx, random_index (random (k + 3)) numCols), k + 4)
            else ((random_index (random (k + 3)) numRows, pIdx), k + 4)
        else
          let k' = (if usePriority then k + 1 else k)
          in ((random_index (random k') numRows, random_index (random (k' + 1)) numCols),
              k' + 2))"

text \<open>Writing the proposed value, evaluating, and keeping or reverting the move.\<close>

definition try_move ::
  "observation list \<Rightarrow> index \<Rightarrow> index \<Rightarrow> cell \<Rightarrow> cell \<Rightarrow> search_state \<Rightarrow> search_state" where
  "try_move observations r c originalValue newValue st =
     (let written = write_cell (currentMatrix st) r c newValue;
          newEval = evaluateError written observations
      in
        if penalty newEval \<le> penalty (currentEval st) then
          if penalty newEval < penalty (bestEval st)
          then st\<lparr>currentMatrix := written, currentEval := newEval,
                  bestMatrix := json_copy written, bestEval := newEval, shared := True\<rparr>
          else st\<lparr>currentMatrix := written, currentEval := newEval, shared := False\<rparr>
        else st\<lparr>currentMatrix := write_cell written r c originalValue\<rparr>)"

text \<open>
  The progress callback receives the object \<open>currentEval\<close> itself. A callback is
  modelled by what that object holds when the callback returns; the object is also
  \<open>bestEval\<close> when the two are shared. A callback that throws, one that reaches the
  optimizer or the observations by other means, and what else runs while \<open>optimize\<close>
  awaits the timer are not modelled.
\<close>

type_synonym progress = "nat \<Rightarrow> nat \<Rightarrow> evaluation \<Rightarrow> evaluation"

definition notify :: "progress option \<Rightarrow> nat \<Rightarrow> nat \<Rightarrow> search_state \<Rightarrow> search_state" where
  "notify onProgress i iterations st =
     (case onProgress of
        None \<Rightarrow> st
      | Some callback \<Rightarrow>
          if i mod 50 = 0 then
            let e = callback i iterations (currentEval st)
            in st\<lparr>currentEval := e, bestEval := (if shared st then e else bestEval st)\<rparr>
          else st)"

definition iteration ::
  "optimizer \<Rightarrow> observation list \<Rightarrow> nat \<Rightarrow> rat \<Rightarrow> int list \<Rightarrow> progress option \<Rightarrow> rng \<Rightarrow>
   nat \<Rightarrow> nat \<Rightarrow> nat \<Rightarrow> search_state \<Rightarrow> error + search_state" where
  "iteration this observations iterations stepSize priorityBloodlines onProgress random
     numRows numCols i st =
     (case select_cell random (calls st) i iterations priorityBloodlines numRows numCols of
        ((r, c), k) \<Rightarrow>
          (case read_cell (currentMatrix st) r c of
             Inl e \<Rightarrow> Inl e
           | Inr originalValue \<Rightarrow>
               (case read_cell (originalMatrix this) r c of
                  Inl e \<Rightarrow> Inl e
                | Inr baseValue \<Rightarrow>
                    let change = (if random k < 1 / 2 then - 1 else 1) * stepSize;
                        st = st\<lparr>calls := k + 1\<rparr>
                    in
                      (case limit_move originalValue baseValue change of
                         None \<Rightarrow> Inr st
                       | Some newValue \<Rightarrow>
                           Inr (notify onProgress i iterations
                                  (try_move observations r c originalValue newValue st))))))"

text \<open>The \<open>for\<close> loop: the state after the iterations \<open>0, ..., n - 1\<close>, or the error that
  ended the run.\<close>

fun run_loop ::
  "optimizer \<Rightarrow> observation list \<Rightarrow> nat \<Rightarrow> rat \<Rightarrow> int list \<Rightarrow> progress option \<Rightarrow> rng \<Rightarrow>
   nat \<Rightarrow> nat \<Rightarrow> nat \<Rightarrow> search_state \<Rightarrow> error + search_state" where
  "run_loop this observations iterations stepSize priorityBloodlines onProgress random
     numRows numCols 0 st = Inr st"
| "run_loop this observations iterations stepSize priorityBloodlines onProgress random
     numRows numCols (Suc n) st =
     (case run_loop this observations iterations stepSize priorityBloodlines onProgress random
             numRows numCols n st of
        Inl e \<Rightarrow> Inl e
      | Inr st' \<Rightarrow>
          iteration this observations iterations stepSize priorityBloodlines onProgress random
            numRows numCols n st')"

subsection \<open>The entry point\<close>

record result =
  res_matrix :: matrix
  res_eval :: evaluation

definition initial_state :: "optimizer \<Rightarrow> observation list \<Rightarrow> search_state" where
  "initial_state this observations =
     (let currentMatrix = json_copy (matrix this);
          currentEval = evaluateError currentMatrix observations
      in \<lparr>currentMatrix = currentMatrix, currentEval = currentEval,
          bestMatrix = json_copy currentMatrix, bestEval = currentEval,
          shared = True, calls = 0\<rparr>)"

text \<open>
  \<open>optimize\<close> returns the best matrix with its evaluation and the optimizer whose
  \<open>matrix\<close> is now the best matrix. Reading the length of row 0 of an empty matrix
  throws, also when there is nothing to iterate.
\<close>

definition optimize ::
  "optimizer \<Rightarrow> observation list \<Rightarrow> nat \<Rightarrow> rat \<Rightarrow> int list \<Rightarrow> progress option \<Rightarrow> rng \<Rightarrow>
   error + (result \<times> optimizer)" where
  "optimize this observations iterations stepSize priorityBloodlines onProgress random =
     (let st0 = initial_state this observations;
          numRows = length (currentMatrix st0)
      in
        case js_nth (currentMatrix st0) (Some 0) of
          None \<Rightarrow> Inl TypeError
        | Some row0 \<Rightarrow>
            let numCols = length row0
            in
              (case run_loop this observations iterations stepSize priorityBloodlines
                      onProgress random numRows numCols iterations st0 of
                 Inl e \<Rightarrow> Inl e
               | Inr st \<Rightarrow>
                   Inr (\<lparr>res_matrix = bestMatrix st, res_eval = bestEval st\<rparr>,
                        this\<lparr>matrix := bestMatrix st\<rparr>)))"

subsection \<open>The older trial\<close>

text \<open>
  The loop of the older \<open>optimize\<close> (in \<open>js/solver_logic.js\<close>) chooses the cell
  uniformly, adds the step in place, raises a negative result to 0, has no motion
  limit, and keeps a move only when the penalty decreases.
\<close>

definition new_value_legacy :: "cell \<Rightarrow> rat \<Rightarrow> cell" where
  "new_value_legacy originalValue change =
     (let added = js_plus (to_number originalValue) change
      in of_number (if js_less added (Some 0) then Some 0 else added))"

definition try_move_legacy ::
  "observation list \<Rightarrow> index \<Rightarrow> index \<Rightarrow> cell \<Rightarrow> rat \<Rightarrow> search_state \<Rightarrow> search_state" where
  "try_move_legacy observations r c originalValue change st =
     (let written = write_cell (currentMatrix st) r c (new_value_legacy originalValue change);
          newEval = evaluateError_legacy written observations
      in
        if penalty newEval < penalty (currentEval st) then
          if penalty newEval < penalty (bestEval st)
          then st\<lparr>currentMatrix := written, currentEval := newEval,
                  bestMatrix := json_copy written, bestEval := newEval, shared := True\<rparr>
          else st\<lparr>currentMatrix := written, currentEval := newEval, shared := False\<rparr>
        else st\<lparr>currentMatrix := write_cell written r c originalValue\<rparr>)"

section \<open>Predicates of the statements\<close>

text \<open>A callback that leaves the evaluation object it is handed as it found it.\<close>

definition observer :: "progress option \<Rightarrow> bool" where
  "observer onProgress =
     (case onProgress of None \<Rightarrow> True | Some callback \<Rightarrow> \<forall>i n e. callback i n e = e)"

text \<open>A matrix as \<open>JSON.parse\<close> returns it: no slot holds \<open>NaN\<close> or \<open>undefined\<close>. The
  constructor and \<open>optimize\<close> only ever store such matrices in the optimizer.\<close>

definition json_matrix :: "matrix \<Rightarrow> bool" where
  "json_matrix mat = list_all (list_all (\<lambda>v. v \<noteq> NaN)) mat"

text \<open>Every entry is a number and is at least 0.\<close>

fun nonneg_cell :: "cell \<Rightarrow> bool" where
  "nonneg_cell (Num x) = (0 \<le> x)"
| "nonneg_cell _ = False"

definition nonneg_matrix :: "matrix \<Rightarrow> bool" where
  "nonneg_matrix mat = list_all (list_all nonneg_cell) mat"

text \<open>A table with \<open>numCols\<close> columns, the number \<open>optimize\<close> reads off row 0.\<close>

definition table :: "matrix \<Rightarrow> nat \<Rightarrow> bool" where
  "table mat numCols = list_all (\<lambda>row. length row = numCols) mat"

text \<open>Every entry of the list is an index below \<open>n\<close>.\<close>

definition indices_below :: "int list \<Rightarrow> nat \<Rightarrow> bool" where
  "indices_below priorityBloodlines n = list_all (\<lambda>p. 0 \<le> p \<and> p < int n) priorityBloodlines"


text \<open>When \<open>currentEval\<close> and \<open>bestEval\<close> are one object they hold the same values.\<close>

definition coherent :: "search_state \<Rightarrow> bool" where
  "coherent st = (shared st \<longrightarrow> bestEval st = currentEval st)"

section \<open>Inputs of the examples\<close>

text \<open>A source of randomness that returns the same number at every call, a callback that
  writes into the evaluation object it is handed, and one that only looks at it.\<close>

definition always :: "rat \<Rightarrow> rng" where
  "always x k = x"



section \<open>Properties of the score and of the penalty\<close>

text \<open>The accumulators of \<open>evaluateError\<close> only ever add, so the evaluation of a list of
  observations is the sum of the evaluations of its observations taken one at a time.\<close>

lemma evaluate_loop_acc:
  "evaluate_loop mat obs tp cc =
     \<lparr>penalty = tp + penalty (evaluate_loop mat obs 0 0),
      contradictions = cc + contradictions (evaluate_loop mat obs 0 0)\<rparr>"
proof (induction obs arbitrary: tp cc)
  case Nil
  show ?case by simp
next
  case (Cons ob rest)
  note IH = Cons.IH
  show ?case
    by (simp add: Let_def split: option.split)
       (auto simp: IH [of "tp + _" "Suc cc"] IH [of "_ ^ 2" "Suc 0"] IH [of tp cc])
qed

lemma evaluate_loop_append:
  "evaluate_loop mat (xs @ ys) tp cc =
     evaluate_loop mat ys (penalty (evaluate_loop mat xs tp cc))
       (contradictions (evaluate_loop mat xs tp cc))"
  by (induction xs arbitrary: tp cc) (simp_all add: Let_def split: option.split)

lemma evaluateError_Cons:
  "evaluateError mat (ob # rest) =
     \<lparr>penalty = penalty (evaluateError mat [ob]) + penalty (evaluateError mat rest),
      contradictions = contradictions (evaluateError mat [ob]) + contradictions (evaluateError mat rest)\<rparr>"
proof -
  have "evaluate_loop mat ([ob] @ rest) 0 0 =
        evaluate_loop mat rest (penalty (evaluate_loop mat [ob] 0 0))
          (contradictions (evaluate_loop mat [ob] 0 0))"
    by (rule evaluate_loop_append)
  then show ?thesis
    unfolding evaluateError_def
    using evaluate_loop_acc [of mat rest "penalty (evaluate_loop mat [ob] 0 0)"
        "contradictions (evaluate_loop mat [ob] 0 0)"]
    by simp
qed

lemma evaluateError_insert:
  "evaluateError mat (before @ ob # after) =
     \<lparr>penalty = penalty (evaluateError mat (before @ after)) + penalty (evaluateError mat [ob]),
      contradictions =
        contradictions (evaluateError mat (before @ after)) + contradictions (evaluateError mat [ob])\<rparr>"
proof -
  have split: "\<And>zs. evaluateError mat (before @ zs) =
      \<lparr>penalty = penalty (evaluateError mat before) + penalty (evaluateError mat zs),
       contradictions = contradictions (evaluateError mat before) + contradictions (evaluateError mat zs)\<rparr>"
    unfolding evaluateError_def
    by (subst evaluate_loop_append, subst evaluate_loop_acc) simp
  show ?thesis
    by (simp add: split [of "ob # after"] split [of after] evaluateError_Cons [of mat ob after])
qed

lemma evaluateError_single:
  "evaluateError mat [ob] =
     (let score = score_of mat ob in
      if correctSymbol ob = Crown then
        (if score < 660 then \<lparr>penalty = (660 - score) ^ 2, contradictions = 1\<rparr>
         else \<lparr>penalty = 0, contradictions = 0\<rparr>)
      else
        case symbolRanges (correctSymbol ob) of
          None \<Rightarrow> \<lparr>penalty = 0, contradictions = 0\<rparr>
        | Some targetRange \<Rightarrow>
            if score < range_min targetRange
            then \<lparr>penalty = (range_min targetRange - score) ^ 2, contradictions = 1\<rparr>
            else if score > range_max targetRange
            then \<lparr>penalty = (score - range_max targetRange) ^ 2, contradictions = 1\<rparr>
            else \<lparr>penalty = 0, contradictions = 0\<rparr>)"
  by (simp add: evaluateError_def Let_def split: option.split)

text \<open>The same for the older loop, and where the two differ.\<close>

lemma evaluate_loop_legacy_acc:
  "evaluate_loop_legacy mat obs tp cc =
     \<lparr>penalty = tp + penalty (evaluate_loop_legacy mat obs 0 0),
      contradictions = cc + contradictions (evaluate_loop_legacy mat obs 0 0)\<rparr>"
proof (induction obs arbitrary: tp cc)
  case Nil
  show ?case by simp
next
  case (Cons ob rest)
  note IH = Cons.IH
  show ?case
    by (simp add: Let_def split: option.split)
       (auto simp: IH [of "tp + _" "Suc cc"] IH [of "_ ^ 2" "Suc 0"] IH [of tp cc])
qed

lemma evaluate_loop_legacy_append:
  "evaluate_loop_legacy mat (xs @ ys) tp cc =
     evaluate_loop_legacy mat ys (penalty (evaluate_loop_legacy mat xs tp cc))
       (contradictions (evaluate_loop_legacy mat xs tp cc))"
  by (induction xs arbitrary: tp cc) (simp_all add: Let_def split: option.split)

lemma evaluateError_legacy_skip:
  assumes "symbolRanges (correctSymbol ob) = None"
  shows "evaluateError_legacy mat (before @ ob # after) = evaluateError_legacy mat (before @ after)"
  using assms by (simp add: evaluateError_legacy_def evaluate_loop_legacy_append)

lemma legacy_crown_upper_bound:
  assumes "correctSymbol ob = Crown" and "9999 < score_of mat ob"
  shows "evaluateError_legacy mat [ob] =
           \<lparr>penalty = (score_of mat ob - 9999) ^ 2, contradictions = 1\<rparr>
       \<and> evaluateError mat [ob] = \<lparr>penalty = 0, contradictions = 0\<rparr>"
  using assms by (simp add: evaluateError_legacy_def evaluateError_def symbolRanges_def)

text \<open>
  C1. The score is 0 as soon as one of the seven identities is absent; otherwise it is
  \<open>comb(child,f) + min(comb(f,ff), comb(child,ff)) + min(comb(f,fm), comb(child,fm))
  + comb(child,m) + min(comb(m,mf), comb(child,mf)) + min(comb(m,mm), comb(child,mm))
  + comb(f,m) + 224 + s2*5 + s3*12.5 + noble\<close>, with \<open>noble\<close> read as 0 when absent. And
  \<open>comb(a,b)\<close> is the number at \<open>matrix[a][b]\<close>, or 0 when an index is absent, when the
  row or the slot does not exist, or when the slot holds no number.
\<close>

theorem calculateScore_formula:
  "calculateScore childId f ff fm m mf mm s3 s2 noble mat =
     (if childId = None \<or> f = None \<or> ff = None \<or> fm = None \<or> m = None \<or> mf = None \<or> mm = None
      then 0
      else getComb childId f mat
         + min (getComb f ff mat) (getComb childId ff mat)
         + min (getComb f fm mat) (getComb childId fm mat)
         + getComb childId m mat
         + min (getComb m mf mat) (getComb childId mf mat)
         + min (getComb m mm mat) (getComb childId mm mat)
         + getComb f m mat
         + 224 + s2 * 5 + s3 * (25 / 2)
         + (case noble of None \<Rightarrow> 0 | Some n \<Rightarrow> n))
   \<and> getComb a b mat =
     (case (a, b) of
        (Some i, Some j) \<Rightarrow>
          if 0 \<le> i \<and> i < int (length mat) \<and> 0 \<le> j \<and> j < int (length (mat ! nat i))
          then (case mat ! nat i ! nat j of Num x \<Rightarrow> x | _ \<Rightarrow> 0)
          else 0
      | _ \<Rightarrow> 0)"
proof
  show "calculateScore childId f ff fm m mf mm s3 s2 noble mat =
     (if childId = None \<or> f = None \<or> ff = None \<or> fm = None \<or> m = None \<or> mf = None \<or> mm = None
      then 0
      else getComb childId f mat
         + min (getComb f ff mat) (getComb childId ff mat)
         + min (getComb f fm mat) (getComb childId fm mat)
         + getComb childId m mat
         + min (getComb m mf mat) (getComb childId mf mat)
         + min (getComb m mm mat) (getComb childId mm mat)
         + getComb f m mat
         + 224 + s2 * 5 + s3 * (25 / 2)
         + (case noble of None \<Rightarrow> 0 | Some n \<Rightarrow> n))"
    by (simp add: calculateScore_def Let_def algebra_simps)
  show "getComb a b mat =
     (case (a, b) of
        (Some i, Some j) \<Rightarrow>
          if 0 \<le> i \<and> i < int (length mat) \<and> 0 \<le> j \<and> j < int (length (mat ! nat i))
          then (case mat ! nat i ! nat j of Num x \<Rightarrow> x | _ \<Rightarrow> 0)
          else 0
      | _ \<Rightarrow> 0)"
    by (cases a; cases b) (auto simp: getComb_def js_nth_def split: cell.split)
qed

theorem calculateScore_formula_witness:
  "calculateScore (Some 0) (Some 0) (Some 0) (Some 0) (Some 0) (Some 0) (Some 0) 2 1 None
     [[Num 3]] = 275
   \<and> calculateScore (Some 0) (Some 0) None (Some 0) (Some 0) (Some 0) (Some 0) 2 1 (Some 4)
     [[Num 3]] = 0
   \<and> getComb (Some 0) (Some 5) [[Num 3]] = 0"
  using calculateScore_formula [of "Some 0" "Some 0" "Some 0" "Some 0" "Some 0" "Some 0" "Some 0"
      2 1 None "[[Num 3]]" "Some 0" "Some 0"]
    calculateScore_formula [of "Some 0" "Some 0" None "Some 0" "Some 0" "Some 0" "Some 0"
      2 1 "Some 4" "[[Num 3]]" "Some 0" "Some 5"]
  by simp

text \<open>
  C2. An observation labelled with the top tier adds \<open>(660 - score)^2\<close> to the penalty
  and 1 to the contradiction count when its score is below 660, and adds nothing to
  either when its score is 660 or more, however large: the top tier has no upper bound.
  An observation with any other label of the table adds \<open>(score - max)^2\<close> and 1 when
  its score is above the \<open>max\<close> of its range.
\<close>

theorem crown_contribution:
  assumes "correctSymbol ob = Crown"
  shows "penalty (evaluateError mat (before @ ob # after)) =
           penalty (evaluateError mat (before @ after))
           + (if score_of mat ob < 660 then (660 - score_of mat ob) ^ 2 else 0)
       \<and> contradictions (evaluateError mat (before @ ob # after)) =
           contradictions (evaluateError mat (before @ after))
           + (if score_of mat ob < 660 then 1 else 0)
       \<and> (correctSymbol other \<noteq> Crown \<longrightarrow>
            symbolRanges (correctSymbol other) = Some targetRange \<longrightarrow>
            range_max targetRange < score_of mat other \<longrightarrow>
              penalty (evaluateError mat (before @ other # after)) =
                penalty (evaluateError mat (before @ after))
                + (score_of mat other - range_max targetRange) ^ 2
              \<and> contradictions (evaluateError mat (before @ other # after)) =
                contradictions (evaluateError mat (before @ after)) + 1)"
proof (intro conjI impI)
  show "penalty (evaluateError mat (before @ ob # after)) =
           penalty (evaluateError mat (before @ after))
           + (if score_of mat ob < 660 then (660 - score_of mat ob) ^ 2 else 0)"
    using assms by (simp add: evaluateError_insert evaluateError_single Let_def)
  show "contradictions (evaluateError mat (before @ ob # after)) =
           contradictions (evaluateError mat (before @ after))
           + (if score_of mat ob < 660 then 1 else 0)"
    using assms by (simp add: evaluateError_insert evaluateError_single Let_def)
next
  assume other: "correctSymbol other \<noteq> Crown"
    "symbolRanges (correctSymbol other) = Some targetRange"
    "range_max targetRange < score_of mat other"
  from other(2) have "range_min targetRange \<le> range_max targetRange"
    by (cases "correctSymbol other") (auto simp: symbolRanges_def)
  with other(3) have "\<not> score_of mat other < range_min targetRange"
    by simp
  with other show "penalty (evaluateError mat (before @ other # after)) =
                penalty (evaluateError mat (before @ after))
                + (score_of mat other - range_max targetRange) ^ 2"
    and "contradictions (evaluateError mat (before @ other # after)) =
                contradictions (evaluateError mat (before @ after)) + 1"
    by (simp_all add: evaluateError_insert evaluateError_single Let_def)
qed

theorem crown_contribution_witness:
  "penalty (evaluateError [[Num 0]]
      [\<lparr>obs_childId = Some 0, obs_f = Some 0, obs_ff = Some 0, obs_fm = Some 0,
        obs_m = Some 0, obs_mf = Some 0, obs_mm = Some 0, obs_s3 = 0, obs_s2 = 0,
        obs_noble = Some 435, correctSymbol = Crown\<rparr>]) = 1
   \<and> contradictions (evaluateError [[Num 0]]
      [\<lparr>obs_childId = Some 0, obs_f = Some 0, obs_ff = Some 0, obs_fm = Some 0,
        obs_m = Some 0, obs_mf = Some 0, obs_mm = Some 0, obs_s3 = 0, obs_s2 = 0,
        obs_noble = Some 435, correctSymbol = Crown\<rparr>]) = 1
   \<and> penalty (evaluateError [[Num 0]]
      [\<lparr>obs_childId = Some 0, obs_f = Some 0, obs_ff = Some 0, obs_fm = Some 0,
        obs_m = Some 0, obs_mf = Some 0, obs_mm = Some 0, obs_s3 = 0, obs_s2 = 0,
        obs_noble = Some 10000, correctSymbol = Crown\<rparr>]) = 0
   \<and> penalty (evaluateError [[Num 0]]
      [\<lparr>obs_childId = Some 0, obs_f = Some 0, obs_ff = Some 0, obs_fm = Some 0,
        obs_m = Some 0, obs_mf = Some 0, obs_mm = Some 0, obs_s3 = 0, obs_s2 = 0,
        obs_noble = Some 436, correctSymbol = Star\<rparr>]) = 1"
proof -
  let ?low = "\<lparr>obs_childId = Some 0, obs_f = Some 0, obs_ff = Some 0, obs_fm = Some 0,
        obs_m = Some 0, obs_mf = Some 0, obs_mm = Some 0, obs_s3 = 0, obs_s2 = 0,
        obs_noble = Some 435, correctSymbol = Crown\<rparr>"
  let ?high = "\<lparr>obs_childId = Some 0, obs_f = Some 0, obs_ff = Some 0, obs_fm = Some 0,
        obs_m = Some 0, obs_mf = Some 0, obs_mm = Some 0, obs_s3 = 0, obs_s2 = 0,
        obs_noble = Some 10000, correctSymbol = Crown\<rparr>"
  let ?star = "\<lparr>obs_childId = Some 0, obs_f = Some 0, obs_ff = Some 0, obs_fm = Some 0,
        obs_m = Some 0, obs_mf = Some 0, obs_mm = Some 0, obs_s3 = 0, obs_s2 = 0,
        obs_noble = Some 436, correctSymbol = Star\<rparr>"
  have crown: "correctSymbol ?low = Crown" "correctSymbol ?high = Crown"
    by simp_all
  have star: "correctSymbol ?star \<noteq> Crown"
    "symbolRanges (correctSymbol ?star) = Some \<lparr>range_min = 614, range_max = 659\<rparr>"
    by (simp_all add: symbolRanges_def)
  have scores: "score_of [[Num 0]] ?low = 659" "score_of [[Num 0]] ?high = 10224"
    "score_of [[Num 0]] ?star = 660"
    by (simp_all add: score_of_def calculateScore_def getComb_def js_nth_def)
  have empty: "evaluateError [[Num 0]] [] = \<lparr>penalty = 0, contradictions = 0\<rparr>"
    by (simp add: evaluateError_def)
  from crown_contribution [OF crown(1), of "[[Num 0]]" "[]" "[]" ?star
      "\<lparr>range_min = 614, range_max = 659\<rparr>"] star
  have a: "penalty (evaluateError [[Num 0]] [?low]) = 1"
    and b: "contradictions (evaluateError [[Num 0]] [?low]) = 1"
    and d: "penalty (evaluateError [[Num 0]] [?star]) = 1"
    by (simp_all add: scores empty)
  from crown_contribution [OF crown(2), of "[[Num 0]]" "[]" "[]"]
  have c: "penalty (evaluateError [[Num 0]] [?high]) = 0"
    by (simp add: scores empty)
  show ?thesis
    by (intro conjI a b c d)
qed

text \<open>
  C8. An observation whose label is none of the six tier symbols adds nothing to the
  penalty and nothing to the contradiction count: the evaluation is the one of the list
  without it, so the other observations are processed as usual. The older
  \<open>evaluateError\<close> does the same.
\<close>

theorem unknown_symbol_skipped:
  assumes "correctSymbol ob \<notin> {Crown, Star, Bullseye, Circle, Triangle, Cross}"
  shows "evaluateError mat (before @ ob # after) = evaluateError mat (before @ after)
       \<and> evaluateError_legacy mat (before @ ob # after) = evaluateError_legacy mat (before @ after)"
proof -
  from assms have none: "symbolRanges (correctSymbol ob) = None"
    by (cases "correctSymbol ob") (simp_all add: symbolRanges_def)
  with assms have "evaluateError mat (before @ ob # after) = evaluateError mat (before @ after)"
    by (simp add: evaluateError_insert evaluateError_single Let_def)
  moreover from none have
    "evaluateError_legacy mat (before @ ob # after) = evaluateError_legacy mat (before @ after)"
    by (rule evaluateError_legacy_skip)
  ultimately show ?thesis ..
qed

theorem unknown_symbol_skipped_witness:
  "correctSymbol
     \<lparr>obs_childId = Some 0, obs_f = Some 0, obs_ff = Some 0, obs_fm = Some 0,
       obs_m = Some 0, obs_mf = Some 0, obs_mm = Some 0, obs_s3 = 0, obs_s2 = 0,
       obs_noble = None, correctSymbol = Other ''?''\<rparr>
     \<notin> {Crown, Star, Bullseye, Circle, Triangle, Cross}
   \<and> evaluateError [[Num 0]]
     [\<lparr>obs_childId = Some 0, obs_f = Some 0, obs_ff = Some 0, obs_fm = Some 0,
       obs_m = Some 0, obs_mf = Some 0, obs_mm = Some 0, obs_s3 = 0, obs_s2 = 0,
       obs_noble = None, correctSymbol = Other ''?''\<rparr>,
      \<lparr>obs_childId = Some 0, obs_f = Some 0, obs_ff = Some 0, obs_fm = Some 0,
       obs_m = Some 0, obs_mf = Some 0, obs_mm = Some 0, obs_s3 = 0, obs_s2 = 0,
       obs_noble = None, correctSymbol = Star\<rparr>]
     = \<lparr>penalty = 152100, contradictions = 1\<rparr>
   \<and> evaluateError_legacy [[Num 0]]
     [\<lparr>obs_childId = Some 0, obs_f = Some 0, obs_ff = Some 0, obs_fm = Some 0,
       obs_m = Some 0, obs_mf = Some 0, obs_mm = Some 0, obs_s3 = 0, obs_s2 = 0,
       obs_noble = None, correctSymbol = Other ''?''\<rparr>,
      \<lparr>obs_childId = Some 0, obs_f = Some 0, obs_ff = Some 0, obs_fm = Some 0,
       obs_m = Some 0, obs_mf = Some 0, obs_mm = Some 0, obs_s3 = 0, obs_s2 = 0,
       obs_noble = None, correctSymbol = Star\<rparr>]
     = \<lparr>penalty = 152100, contradictions = 1\<rparr>"
proof -
  let ?a = "\<lparr>obs_childId = Some 0, obs_f = Some 0, obs_ff = Some 0, obs_fm = Some 0,
       obs_m = Some 0, obs_mf = Some 0, obs_mm = Some 0, obs_s3 = 0, obs_s2 = 0,
       obs_noble = None, correctSymbol = Other ''?''\<rparr>"
  let ?b = "\<lparr>obs_childId = Some 0, obs_f = Some 0, obs_ff = Some 0, obs_fm = Some 0,
       obs_m = Some 0, obs_mf = Some 0, obs_mm = Some 0, obs_s3 = 0, obs_s2 = 0,
       obs_noble = None, correctSymbol = Star\<rparr>"
  have h: "correctSymbol ?a \<notin> {Crown, Star, Bullseye, Circle, Triangle, Cross}"
    by simp
  have one: "evaluateError [[Num 0]] [?b] = \<lparr>penalty = 152100, contradictions = 1\<rparr>"
    by code_simp
  have two: "evaluateError_legacy [[Num 0]] [?b] = \<lparr>penalty = 152100, contradictions = 1\<rparr>"
    by code_simp
  from unknown_symbol_skipped [OF h, of "[[Num 0]]" "[]" "[?b]"] one two
  have "evaluateError [[Num 0]] [?a, ?b] = \<lparr>penalty = 152100, contradictions = 1\<rparr>"
    and "evaluateError_legacy [[Num 0]] [?a, ?b] = \<lparr>penalty = 152100, contradictions = 1\<rparr>"
    by simp_all
  with h show ?thesis by (intro conjI)
qed

section \<open>Properties of the copies, the reads and the writes\<close>

lemma js_nth_map: "js_nth (map g xs) i = map_option g (js_nth xs i)"
  by (cases i) (auto simp: js_nth_def)

lemma or_zero_json_cell: "or_zero (map_option json_cell v) = or_zero v"
proof (cases v)
  case None
  then show ?thesis by simp
next
  case (Some a)
  then show ?thesis by (cases a) simp_all
qed

lemma getComb_json_copy: "getComb a b (json_copy mat) = getComb a b mat"
  by (simp add: getComb_def json_copy_def js_nth_map or_zero_json_cell split: option.split)

lemma score_of_json_copy: "score_of (json_copy mat) ob = score_of mat ob"
  by (simp add: score_of_def calculateScore_def getComb_json_copy)

lemma evaluate_loop_cong:
  assumes "\<And>ob. score_of m1 ob = score_of m2 ob"
  shows "evaluate_loop m1 obs tp cc = evaluate_loop m2 obs tp cc"
  by (induction obs arbitrary: tp cc) (simp_all add: assms Let_def split: option.split)

lemma evaluate_loop_json_copy:
  "evaluate_loop (json_copy mat) obs tp cc = evaluate_loop mat obs tp cc"
  by (rule evaluate_loop_cong) (rule score_of_json_copy)

lemma evaluateError_json_copy: "evaluateError (json_copy mat) obs = evaluateError mat obs"
  by (simp add: evaluateError_def evaluate_loop_json_copy)

lemma json_cell_idem: "json_cell (json_cell v) = json_cell v"
  by (cases v) simp_all

lemma json_copy_idem: "json_copy (json_copy mat) = json_copy mat"
  by (simp add: json_copy_def json_cell_idem)

lemma json_cell_id: "v \<noteq> NaN \<Longrightarrow> json_cell v = v"
  by (cases v) simp_all

lemma json_copy_id: "json_matrix mat \<Longrightarrow> json_copy mat = mat"
  by (simp add: json_matrix_def json_copy_def list_all_iff map_idI json_cell_id)

lemma json_matrix_json_copy: "json_matrix (json_copy mat)"
proof -
  have "json_cell v \<noteq> NaN" for v by (cases v) simp_all
  then show ?thesis by (simp add: json_matrix_def json_copy_def list_all_iff)
qed

lemma length_json_copy: "length (json_copy mat) = length mat"
  by (simp add: json_copy_def)

lemma length_write_cell: "length (write_cell mat r c v) = length mat"
  by (simp add: write_cell_def split: option.split)

lemma js_nth_set_nth_same:
  "0 \<le> j \<Longrightarrow> js_nth (set_nth row (Some j) v) (Some j) = Some v"
  by (auto simp: js_nth_def set_nth_def nth_append)

lemma slot_set_nth_other:
  "c' \<noteq> c \<Longrightarrow> slot (set_nth row c v) c' = slot row c'"
  apply (cases c; cases c')
  apply (auto simp: slot_def js_nth_def set_nth_def nth_append nth_list_update split: if_splits)
  done

lemma slot_set_nth_same:
  "0 \<le> j \<Longrightarrow> slot (set_nth row (Some j) v) (Some j) = v"
  by (simp add: slot_def js_nth_set_nth_same)

lemma js_nth_write_cell:
  "js_nth (write_cell mat r c v) r' =
     (if r' = r then map_option (\<lambda>row. set_nth row c v) (js_nth mat r) else js_nth mat r')"
  apply (cases r; cases r')
  apply (auto simp: js_nth_def write_cell_def nth_list_update)
  done

lemma read_write_other:
  "(r', c') \<noteq> (r, c) \<Longrightarrow> read_cell (write_cell mat r c v) r' c' = read_cell mat r' c'"
  by (auto simp: read_cell_def js_nth_write_cell slot_set_nth_other split: option.split)

lemma read_write_same:
  "read_cell mat r (Some j) = Inr ov \<Longrightarrow> 0 \<le> j \<Longrightarrow>
   read_cell (write_cell mat r (Some j) v) r (Some j) = Inr v"
  by (auto simp: read_cell_def js_nth_write_cell slot_set_nth_same split: option.splits)

lemma read_write_back:
  assumes "read_cell mat r c = Inr ov"
  shows "read_cell (write_cell (write_cell mat r c nv) r c ov) r' c' = read_cell mat r' c'"
proof (cases "(r', c') = (r, c)")
  case False
  then show ?thesis by (simp add: read_write_other)
next
  case True
  show ?thesis
  proof (cases "\<exists>j. c = Some j \<and> 0 \<le> j")
    case True
    then obtain j where j: "c = Some j" "0 \<le> j" by blast
    from assms j have "read_cell (write_cell mat r (Some j) nv) r (Some j) = Inr nv"
      by (simp add: read_write_same)
    with j have "read_cell (write_cell (write_cell mat r c nv) r c ov) r c = Inr ov"
      by (simp add: read_write_same)
    with assms \<open>(r', c') = (r, c)\<close> show ?thesis by simp
  next
    case False
    then have "c = None \<or> (\<exists>j. c = Some j \<and> j < 0)"
      by (cases c) auto
    then have "\<And>m w. write_cell m r c w = m"
      by (auto simp: write_cell_def set_nth_def split: option.split)
    with \<open>(r', c') = (r, c)\<close> show ?thesis by simp
  qed
qed

lemma write_back_in_range:
  assumes "js_nth mat r = Some row" "0 \<le> j" "nat j < length row"
  shows "write_cell (write_cell mat r (Some j) nv) r (Some j) (row ! nat j) = mat"
  using assms
  by (cases r) (auto simp: js_nth_def write_cell_def set_nth_def split: if_splits)

section \<open>Properties of the loop\<close>

text \<open>What an iteration that ends without an error has done, and the induction over
  the iterations of a run.\<close>

lemma iteration_cases:
  assumes "iteration this obs its ss pri cb rnd nr nc i st = Inr st'"
  obtains (abandoned) r c k ov bv where
      "select_cell rnd (calls st) i its pri nr nc = ((r, c), k)"
      "read_cell (currentMatrix st) r c = Inr ov"
      "read_cell (originalMatrix this) r c = Inr bv"
      "limit_move ov bv ((if rnd k < 1 / 2 then - 1 else 1) * ss) = None"
      "st' = st\<lparr>calls := k + 1\<rparr>"
  | (tried) r c k ov bv nv where
      "select_cell rnd (calls st) i its pri nr nc = ((r, c), k)"
      "read_cell (currentMatrix st) r c = Inr ov"
      "read_cell (originalMatrix this) r c = Inr bv"
      "limit_move ov bv ((if rnd k < 1 / 2 then - 1 else 1) * ss) = Some nv"
      "st' = notify cb i its (try_move obs r c ov nv (st\<lparr>calls := k + 1\<rparr>))"
  using assms unfolding iteration_def Let_def
  by (auto split: prod.splits sum.splits option.splits)

lemma run_loop_invariant:
  assumes run: "run_loop this obs its ss pri cb rnd nr nc n st0 = Inr st"
    and init: "P st0"
    and step: "\<And>i s s'. P s \<Longrightarrow> iteration this obs its ss pri cb rnd nr nc i s = Inr s' \<Longrightarrow> P s'"
  shows "P st"
  using run
proof (induction n arbitrary: st)
  case 0
  with init show ?case by simp
next
  case (Suc n)
  then obtain s where s: "run_loop this obs its ss pri cb rnd nr nc n st0 = Inr s"
    and it: "iteration this obs its ss pri cb rnd nr nc n s = Inr st"
    by (auto split: sum.splits)
  from Suc.IH [OF s] step it show ?case by blast
qed

text \<open>A callback that only observes leaves every state of the run as it is.\<close>

lemma coherent_initial: "coherent (initial_state this obs)"
  by (simp add: coherent_def initial_state_def Let_def)

lemma coherent_try_move: "coherent st \<Longrightarrow> coherent (try_move obs r c ov nv st)"
  by (simp add: coherent_def try_move_def Let_def)

lemma coherent_notify: "coherent st \<Longrightarrow> coherent (notify cb i n st)"
  by (simp add: coherent_def notify_def Let_def split: option.split)

lemma coherent_calls: "coherent (st\<lparr>calls := k\<rparr>) = coherent st"
  by (simp add: coherent_def)

lemma notify_observer: "observer cb \<Longrightarrow> coherent st \<Longrightarrow> notify cb i n st = st"
  by (auto simp: observer_def coherent_def notify_def Let_def split: option.splits)

lemma iteration_observer:
  assumes "observer cb" "coherent st"
  shows "iteration this obs its ss pri cb rnd nr nc i st =
         iteration this obs its ss pri None rnd nr nc i st"
proof -
  have "notify cb i its (try_move obs r c ov nv (st\<lparr>calls := k\<rparr>)) =
        notify None i its (try_move obs r c ov nv (st\<lparr>calls := k\<rparr>))" for r c ov nv k
    using assms by (simp add: notify_observer coherent_try_move coherent_calls) (simp add: notify_def)
  then show ?thesis
    by (simp add: iteration_def Let_def split: prod.split sum.split option.split)
qed

lemma iteration_coherent:
  assumes "iteration this obs its ss pri cb rnd nr nc i st = Inr st'" "coherent st"
  shows "coherent st'"
  using assms(1)
proof (cases rule: iteration_cases)
  case abandoned
  with assms(2) show ?thesis by (simp add: coherent_calls)
next
  case tried
  with assms(2) show ?thesis by (simp add: coherent_notify coherent_try_move coherent_calls)
qed

lemma run_loop_coherent:
  assumes "run_loop this obs its ss pri cb rnd nr nc n st0 = Inr st" "coherent st0"
  shows "coherent st"
  using assms(1) assms(2)
  by (rule run_loop_invariant) (rule iteration_coherent)

lemma run_loop_observer:
  assumes "observer cb" "coherent st0"
  shows "run_loop this obs its ss pri cb rnd nr nc n st0 =
         run_loop this obs its ss pri None rnd nr nc n st0"
proof (induction n)
  case 0
  show ?case by simp
next
  case (Suc n)
  show ?case
  proof (cases "run_loop this obs its ss pri None rnd nr nc n st0")
    case (Inl e)
    with Suc show ?thesis by simp
  next
    case (Inr s)
    then have "coherent s" using assms(2) by (rule run_loop_coherent)
    with assms(1) Suc Inr show ?thesis by (simp add: iteration_observer)
  qed
qed

lemma optimize_observer:
  assumes "observer cb"
  shows "optimize this obs its ss pri cb rnd = optimize this obs its ss pri None rnd"
  unfolding optimize_def Let_def run_loop_observer [OF assms coherent_initial] ..

lemma try_move_best_mono:
  "penalty (bestEval (try_move obs r c ov nv st)) \<le> penalty (bestEval st)"
  by (simp add: try_move_def Let_def)

lemma iteration_best_mono:
  assumes "iteration this obs its ss pri None rnd nr nc i st = Inr st'"
  shows "penalty (bestEval st') \<le> penalty (bestEval st)"
  using assms
proof (cases rule: iteration_cases)
  case abandoned
  then show ?thesis by simp
next
  case (tried r c k ov bv nv)
  have "penalty (bestEval (try_move obs r c ov nv (st\<lparr>calls := k + 1\<rparr>)))
          \<le> penalty (bestEval (st\<lparr>calls := k + 1\<rparr>))"
    by (rule try_move_best_mono)
  with tried show ?thesis by (simp add: notify_def)
qed

lemma run_loop_best_mono:
  assumes "run_loop this obs its ss pri None rnd nr nc n st0 = Inr st"
  shows "penalty (bestEval st) \<le> penalty (bestEval st0)"
  using assms
proof (rule run_loop_invariant [where P = "\<lambda>s. penalty (bestEval s) \<le> penalty (bestEval st0)"])
  show "penalty (bestEval st0) \<le> penalty (bestEval st0)" by simp
next
  fix i s s'
  assume "penalty (bestEval s) \<le> penalty (bestEval st0)"
    and "iteration this obs its ss pri None rnd nr nc i s = Inr s'"
  then show "penalty (bestEval s') \<le> penalty (bestEval st0)"
    using iteration_best_mono by fastforce
qed

lemma optimize_Inr:
  assumes "optimize this obs its ss pri cb rnd = Inr (res, this')"
  shows "\<exists>row0 st.
    js_nth (json_copy (matrix this)) (Some 0) = Some row0 \<and>
    run_loop this obs its ss pri cb rnd (length (matrix this)) (length row0) its
       (initial_state this obs) = Inr st \<and>
    res = \<lparr>res_matrix = bestMatrix st, res_eval = bestEval st\<rparr> \<and>
    this' = this\<lparr>matrix := bestMatrix st\<rparr>"
  using assms
  by (auto simp: optimize_def Let_def initial_state_def length_json_copy
      split: option.splits sum.splits)

text \<open>The cell that is chosen, and runs that do not throw.\<close>

lemma random_index_range:
  assumes "0 \<le> x" "x < 1" "0 < n"
  shows "\<exists>j. random_index x n = Some j \<and> 0 \<le> j \<and> j < int n"
proof -
  from assms have "x * of_nat n < of_nat n" by simp
  then have "\<lfloor>x * of_nat n\<rfloor> < int n"
    by (simp add: floor_less_iff)
  moreover from assms have "0 \<le> \<lfloor>x * of_nat n\<rfloor>" by simp
  ultimately show ?thesis by (simp add: random_index_def)
qed

lemma priority_pick:
  assumes "0 \<le> x" "x < 1" "indices_below pri n" "0 < length pri"
  shows "\<exists>j. js_nth pri (random_index x (length pri)) = Some j \<and> 0 \<le> j \<and> j < int n"
proof -
  from random_index_range [OF assms(1,2,4)] obtain k where
    k: "random_index x (length pri) = Some k" "0 \<le> k" "k < int (length pri)" by blast
  then have "nat k < length pri" by simp
  with assms(3) have "0 \<le> pri ! nat k \<and> pri ! nat k < int n"
    by (simp add: indices_below_def list_all_length)
  with k show ?thesis by (simp add: js_nth_def)
qed

lemma select_cell_row:
  assumes "unit_range rnd" "indices_below pri nr" "0 < nr"
    and "select_cell rnd k i its pri nr nc = ((r, c), k')"
  shows "\<exists>j. r = Some j \<and> 0 \<le> j \<and> j < int nr"
proof -
  have u: "0 \<le> rnd q" "rnd q < 1" for q
    using assms(1) by (simp_all add: unit_range_def)
  have a: "\<exists>j. random_index (rnd q) nr = Some j \<and> 0 \<le> j \<and> j < int nr" for q
    using u assms(3) by (rule random_index_range)
  have b: "0 < length pri \<Longrightarrow>
      \<exists>j. js_nth pri (random_index (rnd q) (length pri)) = Some j \<and> 0 \<le> j \<and> j < int nr" for q
    using u assms(2) by (rule priority_pick)
  from assms(4) show ?thesis
    unfolding select_cell_def Let_def
    using a b by (auto split: if_splits)
qed

lemma select_cell_col:
  assumes "unit_range rnd" "indices_below pri nc" "0 < nc"
    and "select_cell rnd k i its pri nr nc = ((r, c), k')"
  shows "\<exists>j. c = Some j \<and> 0 \<le> j \<and> j < int nc"
proof -
  have u: "0 \<le> rnd q" "rnd q < 1" for q
    using assms(1) by (simp_all add: unit_range_def)
  have a: "\<exists>j. random_index (rnd q) nc = Some j \<and> 0 \<le> j \<and> j < int nc" for q
    using u assms(3) by (rule random_index_range)
  have b: "0 < length pri \<Longrightarrow>
      \<exists>j. js_nth pri (random_index (rnd q) (length pri)) = Some j \<and> 0 \<le> j \<and> j < int nc" for q
    using u assms(2) by (rule priority_pick)
  from assms(4) show ?thesis
    unfolding select_cell_def Let_def
    using a b by (auto split: if_splits)
qed

lemma read_cell_row:
  "0 \<le> j \<Longrightarrow> j < int (length mat) \<Longrightarrow> read_cell mat (Some j) c = Inr (slot (mat ! nat j) c)"
  by (simp add: read_cell_def js_nth_def)

lemma length_try_move:
  "length (currentMatrix (try_move obs r c ov nv st)) = length (currentMatrix st)"
  by (simp add: try_move_def Let_def length_write_cell)

lemma currentMatrix_notify: "currentMatrix (notify cb i n st) = currentMatrix st"
  by (simp add: notify_def Let_def split: option.split)

lemma bestMatrix_notify: "bestMatrix (notify cb i n st) = bestMatrix st"
  by (simp add: notify_def Let_def split: option.split)

lemma iteration_length:
  assumes "iteration this obs its ss pri cb rnd nr nc i st = Inr st'"
  shows "length (currentMatrix st') = length (currentMatrix st)"
  using assms
  by (cases rule: iteration_cases) (simp_all add: currentMatrix_notify length_try_move)

lemma iteration_total:
  assumes "unit_range rnd" "indices_below pri nr" "0 < nr"
    and "length (currentMatrix st) = nr" "nr \<le> length (originalMatrix this)"
  shows "\<exists>st'. iteration this obs its ss pri cb rnd nr nc i st = Inr st'"
proof -
  obtain r c k where sel: "select_cell rnd (calls st) i its pri nr nc = ((r, c), k)"
    by (metis prod.exhaust)
  from select_cell_row [OF assms(1-3) sel] obtain j where
    j: "r = Some j" "0 \<le> j" "j < int nr" by blast
  with assms(4,5) have
    "read_cell (currentMatrix st) r c = Inr (slot (currentMatrix st ! nat j) c)"
    "read_cell (originalMatrix this) r c = Inr (slot (originalMatrix this ! nat j) c)"
    by (simp_all add: read_cell_row)
  with sel show ?thesis
    by (simp add: iteration_def Let_def split: option.split)
qed

lemma run_loop_total:
  assumes "unit_range rnd" "indices_below pri nr" "0 < nr"
    and "length (currentMatrix st0) = nr" "nr \<le> length (originalMatrix this)"
  shows "\<exists>st. run_loop this obs its ss pri cb rnd nr nc n st0 = Inr st
           \<and> length (currentMatrix st) = nr"
proof (induction n)
  case 0
  with assms(4) show ?case by simp
next
  case (Suc n)
  then obtain s where s: "run_loop this obs its ss pri cb rnd nr nc n st0 = Inr s"
    "length (currentMatrix s) = nr" by blast
  from iteration_total [OF assms(1-3) s(2) assms(5)] obtain s' where
    s': "iteration this obs its ss pri cb rnd nr nc n s = Inr s'" by blast
  with s iteration_length [OF s'] show ?case by simp
qed

lemma evaluateError_Nil: "evaluateError mat [] = \<lparr>penalty = 0, contradictions = 0\<rparr>"
  by (simp add: evaluateError_def)

lemma iteration_no_observations:
  assumes "iteration this [] its ss pri None rnd nr nc i st = Inr st'"
    and "currentEval st = \<lparr>penalty = 0, contradictions = 0\<rparr>"
    and "bestEval st = \<lparr>penalty = 0, contradictions = 0\<rparr>"
  shows "currentEval st' = \<lparr>penalty = 0, contradictions = 0\<rparr>
       \<and> bestEval st' = \<lparr>penalty = 0, contradictions = 0\<rparr>
       \<and> bestMatrix st' = bestMatrix st"
  using assms(1)
proof (cases rule: iteration_cases)
  case abandoned
  with assms(2,3) show ?thesis by simp
next
  case tried
  with assms(2,3) show ?thesis
    by (simp add: notify_def try_move_def Let_def evaluateError_Nil)
qed

lemma run_loop_no_observations:
  assumes "run_loop this [] its ss pri None rnd nr nc n st0 = Inr st"
    and "currentEval st0 = \<lparr>penalty = 0, contradictions = 0\<rparr>"
    and "bestEval st0 = \<lparr>penalty = 0, contradictions = 0\<rparr>"
  shows "bestEval st = \<lparr>penalty = 0, contradictions = 0\<rparr> \<and> bestMatrix st = bestMatrix st0"
proof -
  let ?P = "\<lambda>s. currentEval s = \<lparr>penalty = 0, contradictions = 0\<rparr>
       \<and> bestEval s = \<lparr>penalty = 0, contradictions = 0\<rparr>
       \<and> bestMatrix s = bestMatrix st0"
  have "?P st"
    using assms(1)
  proof (rule run_loop_invariant [where P = ?P])
    show "?P st0" using assms(2,3) by simp
  next
    fix i s s'
    assume "?P s" and "iteration this [] its ss pri None rnd nr nc i s = Inr s'"
    then show "?P s'" using iteration_no_observations [of this its ss pri rnd nr nc i s s'] by simp
  qed
  then show ?thesis by simp
qed



lemma limit_move_nonneg:
  assumes "0 \<le> x" "bv = NaN \<or> (\<exists>b. bv = Num b \<and> 0 \<le> b)"
    and "limit_move (Num x) bv ch = Some nv"
  shows "nonneg_cell nv"
  using assms
  by (auto simp: limit_move_def MOTION_LIMIT_def Let_def split: if_splits)

text \<open>The two outcomes of a trial.\<close>

lemma try_move_cases:
  "try_move obs r c ov nv st =
     (let written = write_cell (currentMatrix st) r c nv;
          newEval = evaluateError written obs
      in if penalty newEval \<le> penalty (currentEval st) then
           if penalty newEval < penalty (bestEval st)
           then st\<lparr>currentMatrix := written, currentEval := newEval,
                   bestMatrix := json_copy written, bestEval := newEval, shared := True\<rparr>
           else st\<lparr>currentMatrix := written, currentEval := newEval, shared := False\<rparr>
         else st\<lparr>currentMatrix := write_cell written r c ov\<rparr>)"
  by (simp add: try_move_def)









text \<open>Entries that are numbers at least 0 stay so, as long as the slots that are
  chosen exist.\<close>

lemma nonneg_json_copy: "nonneg_matrix mat \<Longrightarrow> json_copy mat = mat"
proof -
  assume "nonneg_matrix mat"
  moreover have "v \<noteq> NaN" if "nonneg_cell v" for v
    using that by (cases v) simp_all
  ultimately have "json_matrix mat"
    unfolding nonneg_matrix_def json_matrix_def list_all_iff by blast
  then show ?thesis by (rule json_copy_id)
qed

lemma js_nth_SomeD:
  "js_nth xs i = Some x \<Longrightarrow> \<exists>j. i = Some j \<and> 0 \<le> j \<and> nat j < length xs \<and> x = xs ! nat j"
  by (cases i) (auto simp: js_nth_def split: if_splits)

lemma write_cell_in_range:
  assumes "0 \<le> i" "nat i < length mat" "0 \<le> j" "nat j < length (mat ! nat i)"
  shows "write_cell mat (Some i) (Some j) v = mat[nat i := (mat ! nat i)[nat j := v]]"
proof -
  from assms(1,2) have "i < int (length mat)" by linarith
  with assms show ?thesis by (simp add: write_cell_def set_nth_def)
qed

lemma list_all_update:
  "list_all P xs \<Longrightarrow> P y \<Longrightarrow> list_all P (xs[k := y])"
proof -
  assume a: "list_all P xs" "P y"
  have "set (xs[k := y]) \<subseteq> insert y (set xs)"
    by (rule set_update_subset_insert)
  with a show ?thesis by (auto simp: list_all_iff)
qed

lemma write_nonneg_table:
  assumes nn: "nonneg_matrix mat" and tb: "table mat nc"
    and i: "0 \<le> i" "nat i < length mat" and j: "0 \<le> j" "j < int nc" and v: "nonneg_cell v"
  shows "nonneg_matrix (write_cell mat (Some i) (Some j) v) \<and> table (write_cell mat (Some i) (Some j) v) nc"
proof -
  let ?row = "mat ! nat i"
  from i(2) have mem: "?row \<in> set mat" by simp
  with tb have len: "length ?row = nc" by (simp add: table_def list_all_iff)
  with j have jr: "nat j < length ?row" by simp
  from mem nn have "list_all nonneg_cell ?row" by (simp add: nonneg_matrix_def list_all_iff)
  with v have "list_all nonneg_cell (?row[nat j := v])" by (simp add: list_all_update)
  with nn have "nonneg_matrix (mat[nat i := ?row[nat j := v]])"
    unfolding nonneg_matrix_def by (rule list_all_update)
  moreover from tb len have "table (mat[nat i := ?row[nat j := v]]) nc"
    unfolding table_def by (simp add: list_all_update)
  ultimately show ?thesis
    using write_cell_in_range [OF i j(1) jr] by simp
qed

lemma slot_nonneg_or_missing:
  assumes "list_all nonneg_cell row"
  shows "slot row c = NaN \<or> (\<exists>b. slot row c = Num b \<and> 0 \<le> b)"
proof (cases "js_nth row c")
  case None
  then show ?thesis by (simp add: slot_def)
next
  case (Some x)
  then have "x \<in> set row" by (auto dest: js_nth_SomeD)
  with assms have "nonneg_cell x" by (simp add: list_all_iff)
  with Some show ?thesis by (cases x) (simp_all add: slot_def)
qed

lemma iteration_nonneg:
  assumes rnd: "unit_range rnd" and pri: "indices_below pri nc" and nc: "0 < nc"
    and orig: "nonneg_matrix (originalMatrix this)"
    and it: "iteration this obs its ss pri cb rnd nr nc i st = Inr st'"
    and cur: "nonneg_matrix (currentMatrix st)" and tb: "table (currentMatrix st) nc"
    and best: "nonneg_matrix (bestMatrix st)"
  shows "nonneg_matrix (currentMatrix st') \<and> table (currentMatrix st') nc
       \<and> nonneg_matrix (bestMatrix st')"
  using it
proof (cases rule: iteration_cases)
  case abandoned
  with cur tb best show ?thesis by simp
next
  case (tried r c k ov bv nv)
  let ?mat = "currentMatrix st"
  from select_cell_col [OF rnd pri nc tried(1)] obtain j where
    j: "c = Some j" "0 \<le> j" "j < int nc" by blast
  from tried(2) obtain row where row: "js_nth ?mat r = Some row" "ov = slot row c"
    by (auto simp: read_cell_def split: option.splits)
  from js_nth_SomeD [OF row(1)] obtain i' where
    i': "r = Some i'" "0 \<le> i'" "nat i' < length ?mat" "row = ?mat ! nat i'" by blast
  from i'(3,4) have mem: "row \<in> set ?mat" by simp
  with tb have len: "length row = nc" by (simp add: table_def list_all_iff)
  from mem cur have rownn: "list_all nonneg_cell row" by (simp add: nonneg_matrix_def list_all_iff)
  from len j have jr: "nat j < length row" by simp
  from j(2) jr have "j < int (length row)" by linarith
  with j row(2) have ovj: "ov = row ! nat j" by (simp add: slot_def js_nth_def)
  with rownn jr have "nonneg_cell ov" by (simp add: list_all_length)
  then obtain x where x: "ov = Num x" "0 \<le> x" by (cases ov) simp_all
  from tried(3) obtain brow where brow: "js_nth (originalMatrix this) r = Some brow" "bv = slot brow c"
    by (auto simp: read_cell_def split: option.splits)
  from js_nth_SomeD [OF brow(1)] have "brow \<in> set (originalMatrix this)" by auto
  with orig have "list_all nonneg_cell brow" by (simp add: nonneg_matrix_def list_all_iff)
  from slot_nonneg_or_missing [OF this, of c] brow(2)
  have bvc: "bv = NaN \<or> (\<exists>b. bv = Num b \<and> 0 \<le> b)" by simp
  from tried(4) x have "limit_move (Num x) bv ((if rnd k < 1 / 2 then - 1 else 1) * ss) = Some nv"
    by simp
  with x(2) bvc have nvnn: "nonneg_cell nv" by (rule limit_move_nonneg)
  let ?written = "write_cell ?mat r c nv"
  from write_nonneg_table [OF cur tb i'(2,3) j(2,3) nvnn] i'(1) j(1)
  have wr: "nonneg_matrix ?written" "table ?written nc" by simp_all
  from write_back_in_range [OF row(1) j(2) jr, of nv] j(1) ovj
  have wb: "write_cell ?written r c ov = ?mat" by simp
  from wr(1) have jc: "json_copy ?written = ?written" by (rule nonneg_json_copy)
  let ?st1 = "st\<lparr>calls := k + 1\<rparr>"
  have "nonneg_matrix (currentMatrix (try_move obs r c ov nv ?st1))
      \<and> table (currentMatrix (try_move obs r c ov nv ?st1)) nc
      \<and> nonneg_matrix (bestMatrix (try_move obs r c ov nv ?st1))"
    using wr wb jc cur tb best by (simp add: try_move_def Let_def)
  with tried(5) show ?thesis
    by (simp add: currentMatrix_notify bestMatrix_notify)
qed

lemma run_loop_nonneg:
  assumes rnd: "unit_range rnd" and pri: "indices_below pri nc" and nc: "0 < nc"
    and orig: "nonneg_matrix (originalMatrix this)"
    and run: "run_loop this obs its ss pri cb rnd nr nc n st0 = Inr st"
    and init: "nonneg_matrix (currentMatrix st0)" "table (currentMatrix st0) nc"
      "nonneg_matrix (bestMatrix st0)"
  shows "nonneg_matrix (currentMatrix st) \<and> table (currentMatrix st) nc
       \<and> nonneg_matrix (bestMatrix st)"
  using run
proof (rule run_loop_invariant
    [where P = "\<lambda>s. nonneg_matrix (currentMatrix s) \<and> table (currentMatrix s) nc
       \<and> nonneg_matrix (bestMatrix s)"])
  show "nonneg_matrix (currentMatrix st0) \<and> table (currentMatrix st0) nc
       \<and> nonneg_matrix (bestMatrix st0)"
    using init by simp
next
  fix i s s'
  assume "nonneg_matrix (currentMatrix s) \<and> table (currentMatrix s) nc
       \<and> nonneg_matrix (bestMatrix s)"
    and "iteration this obs its ss pri cb rnd nr nc i s = Inr s'"
  then show "nonneg_matrix (currentMatrix s') \<and> table (currentMatrix s') nc
       \<and> nonneg_matrix (bestMatrix s')"
    using iteration_nonneg [OF rnd pri nc orig] by blast
qed

text \<open>What the constructor establishes and \<open>optimize\<close> maintains: the matrices of
  the optimizer are JSON copies with the same number of rows.\<close>

lemma constructor_invariant:
  "json_matrix (matrix (CompatibilityOptimizer initialMatrix))
   \<and> json_matrix (originalMatrix (CompatibilityOptimizer initialMatrix))
   \<and> length (originalMatrix (CompatibilityOptimizer initialMatrix))
       = length (matrix (CompatibilityOptimizer initialMatrix))"
  by (simp add: CompatibilityOptimizer_def json_matrix_json_copy)

lemma iteration_best_json:
  assumes "iteration this obs its ss pri cb rnd nr nc i st = Inr st'"
    and "json_matrix (bestMatrix st) \<and> length (bestMatrix st) = length (currentMatrix st)"
  shows "json_matrix (bestMatrix st') \<and> length (bestMatrix st') = length (currentMatrix st')"
  using assms(1)
proof (cases rule: iteration_cases)
  case abandoned
  with assms(2) show ?thesis by simp
next
  case tried
  with assms(2) show ?thesis
    by (simp add: bestMatrix_notify currentMatrix_notify try_move_def Let_def
        json_matrix_json_copy length_json_copy length_write_cell)
qed

lemma optimize_invariant:
  assumes "optimize this obs its ss pri cb rnd = Inr (res, this')"
  shows "json_matrix (matrix this') \<and> length (matrix this') = length (matrix this)
       \<and> originalMatrix this' = originalMatrix this \<and> matrix this' = res_matrix res"
proof -
  from optimize_Inr [OF assms] obtain row0 :: "cell list" and st where
    run: "run_loop this obs its ss pri cb rnd (length (matrix this)) (length row0) its
       (initial_state this obs) = Inr st"
    and res: "res = \<lparr>res_matrix = bestMatrix st, res_eval = bestEval st\<rparr>"
      "this' = this\<lparr>matrix := bestMatrix st\<rparr>"
    by blast
  let ?P = "\<lambda>s. (json_matrix (bestMatrix s) \<and> length (bestMatrix s) = length (currentMatrix s))
     \<and> length (currentMatrix s) = length (matrix this)"
  have "?P st"
    using run
  proof (rule run_loop_invariant [where P = ?P])
    show "?P (initial_state this obs)"
      by (simp add: initial_state_def Let_def json_matrix_json_copy length_json_copy)
  next
    fix i s s'
    assume "?P s" and it: "iteration this obs its ss pri cb rnd (length (matrix this)) (length row0) i s = Inr s'"
    with iteration_best_json [OF it] iteration_length [OF it] show "?P s'" by simp
  qed
  with res show ?thesis by simp
qed

text \<open>The older trial reverts a move that leaves the penalty as it was.\<close>

lemma legacy_tie_reverted:
  assumes "penalty (evaluateError_legacy
             (write_cell (currentMatrix st) r c (new_value_legacy ov change)) obs)
           = penalty (currentEval st)"
  shows "currentMatrix (try_move_legacy obs r c ov change st) =
           write_cell (write_cell (currentMatrix st) r c (new_value_legacy ov change)) r c ov
       \<and> currentEval (try_move_legacy obs r c ov change st) = currentEval st
       \<and> bestMatrix (try_move_legacy obs r c ov change st) = bestMatrix st"
  using assms by (simp add: try_move_legacy_def Let_def)

section \<open>Properties of the optimizer\<close>

text \<open>
  C3. In an iteration that is not abandoned, the proposed value is written and the
  penalty recomputed. If the new penalty is at most the current one the move is kept,
  and the matrix is copied as the new best exactly when the new penalty is below the
  best one. Otherwise the one slot is set back to the value it had: the matrix then
  reads as before the step at every position, and the evaluations and the best matrix
  are untouched.
\<close>

theorem keep_or_revert:
  assumes "observer onProgress"
    and "run_loop this obs its ss pri onProgress rnd nr nc i (initial_state this obs) = Inr st"
    and "select_cell rnd (calls st) i its pri nr nc = ((r, c), k)"
    and "read_cell (currentMatrix st) r c = Inr originalValue"
    and "read_cell (originalMatrix this) r c = Inr baseValue"
    and "limit_move originalValue baseValue ((if rnd k < 1 / 2 then - 1 else 1) * ss) = Some newValue"
  shows "\<exists>st'. run_loop this obs its ss pri onProgress rnd nr nc (Suc i) (initial_state this obs) = Inr st'
     \<and> (let written = write_cell (currentMatrix st) r c newValue;
             newEval = evaluateError written obs
         in if penalty newEval \<le> penalty (currentEval st) then
              currentMatrix st' = written \<and> currentEval st' = newEval
              \<and> (if penalty newEval < penalty (bestEval st)
                  then bestMatrix st' = json_copy written \<and> bestEval st' = newEval
                  else bestMatrix st' = bestMatrix st \<and> bestEval st' = bestEval st)
            else
              currentMatrix st' = write_cell written r c originalValue
              \<and> (\<forall>r' c'. read_cell (currentMatrix st') r' c' = read_cell (currentMatrix st) r' c')
              \<and> currentEval st' = currentEval st
              \<and> bestMatrix st' = bestMatrix st \<and> bestEval st' = bestEval st)"
proof -
  let ?st1 = "st\<lparr>calls := k + 1\<rparr>"
  let ?st' = "try_move obs r c originalValue newValue ?st1"
  from assms(2) have "coherent st"
    using coherent_initial by (rule run_loop_coherent)
  then have "coherent ?st'"
    by (simp add: coherent_try_move coherent_calls)
  with assms(1) have "notify onProgress i its ?st' = ?st'"
    by (simp add: notify_observer)
  with assms(3-6) have "iteration this obs its ss pri onProgress rnd nr nc i st = Inr ?st'"
    by (simp add: iteration_def Let_def)
  with assms(2) have run: "run_loop this obs its ss pri onProgress rnd nr nc (Suc i)
      (initial_state this obs) = Inr ?st'"
    by simp
  have restored: "read_cell (write_cell (write_cell (currentMatrix st) r c newValue) r c originalValue) r' c'
      = read_cell (currentMatrix st) r' c'" for r' c'
    using assms(4) by (rule read_write_back)
  have "let written = write_cell (currentMatrix st) r c newValue;
             newEval = evaluateError written obs
         in if penalty newEval \<le> penalty (currentEval st) then
              currentMatrix ?st' = written \<and> currentEval ?st' = newEval
              \<and> (if penalty newEval < penalty (bestEval st)
                  then bestMatrix ?st' = json_copy written \<and> bestEval ?st' = newEval
                  else bestMatrix ?st' = bestMatrix st \<and> bestEval ?st' = bestEval st)
            else
              currentMatrix ?st' = write_cell written r c originalValue
              \<and> (\<forall>r' c'. read_cell (currentMatrix ?st') r' c' = read_cell (currentMatrix st) r' c')
              \<and> currentEval ?st' = currentEval st
              \<and> bestMatrix ?st' = bestMatrix st \<and> bestEval ?st' = bestEval st"
    by (simp add: try_move_cases Let_def restored)
  with run show ?thesis by blast
qed

theorem keep_or_revert_witness:
  "observer None
   \<and> run_loop (CompatibilityOptimizer [[Num 0]])
       [\<lparr>obs_childId = Some 0, obs_f = Some 0, obs_ff = Some 0, obs_fm = Some 0,
         obs_m = Some 0, obs_mf = Some 0, obs_mm = Some 0, obs_s3 = 0, obs_s2 = 0,
         obs_noble = None, correctSymbol = Crown\<rparr>]
       3 (1 / 2) [] None (always (3 / 4)) 1 1 1
       (initial_state (CompatibilityOptimizer [[Num 0]])
         [\<lparr>obs_childId = Some 0, obs_f = Some 0, obs_ff = Some 0, obs_fm = Some 0,
           obs_m = Some 0, obs_mf = Some 0, obs_mm = Some 0, obs_s3 = 0, obs_s2 = 0,
           obs_noble = None, correctSymbol = Crown\<rparr>])
     = Inr \<lparr>currentMatrix = [[Num (1 / 2)]],
            currentEval = \<lparr>penalty = 748225 / 4, contradictions = 1\<rparr>,
            bestMatrix = [[Num (1 / 2)]],
            bestEval = \<lparr>penalty = 748225 / 4, contradictions = 1\<rparr>,
            shared = True, calls = 3\<rparr>
   \<and> select_cell (always (3 / 4)) 3 1 3 [] 1 1 = ((Some 0, Some 0), 5)
   \<and> read_cell [[Num (1 / 2)]] (Some 0) (Some 0) = Inr (Num (1 / 2))
   \<and> read_cell (originalMatrix (CompatibilityOptimizer [[Num 0]])) (Some 0) (Some 0) = Inr (Num 0)
   \<and> limit_move (Num (1 / 2)) (Num 0) ((if always (3 / 4) 5 < 1 / 2 then - 1 else 1) * (1 / 2))
       = Some (Num 1)
   \<and> (\<exists>st'. run_loop (CompatibilityOptimizer [[Num 0]])
       [\<lparr>obs_childId = Some 0, obs_f = Some 0, obs_ff = Some 0, obs_fm = Some 0,
         obs_m = Some 0, obs_mf = Some 0, obs_mm = Some 0, obs_s3 = 0, obs_s2 = 0,
         obs_noble = None, correctSymbol = Crown\<rparr>]
       3 (1 / 2) [] None (always (3 / 4)) 1 1 (Suc 1)
       (initial_state (CompatibilityOptimizer [[Num 0]])
         [\<lparr>obs_childId = Some 0, obs_f = Some 0, obs_ff = Some 0, obs_fm = Some 0,
           obs_m = Some 0, obs_mf = Some 0, obs_mm = Some 0, obs_s3 = 0, obs_s2 = 0,
           obs_noble = None, correctSymbol = Crown\<rparr>]) = Inr st'
       \<and> currentMatrix st' = [[Num 1]] \<and> bestMatrix st' = [[Num 1]]
       \<and> bestEval st' = \<lparr>penalty = 184041, contradictions = 1\<rparr>)"
proof -
  let ?T = "CompatibilityOptimizer [[Num 0]]"
  let ?O = "[\<lparr>obs_childId = Some 0, obs_f = Some 0, obs_ff = Some 0, obs_fm = Some 0,
         obs_m = Some 0, obs_mf = Some 0, obs_mm = Some 0, obs_s3 = 0, obs_s2 = 0,
         obs_noble = None, correctSymbol = Crown\<rparr>]"
  let ?s1 = "\<lparr>currentMatrix = [[Num (1 / 2)]],
            currentEval = \<lparr>penalty = 748225 / 4, contradictions = 1\<rparr>,
            bestMatrix = [[Num (1 / 2)]],
            bestEval = \<lparr>penalty = 748225 / 4, contradictions = 1\<rparr>,
            shared = True, calls = 3\<rparr>"
  have h1: "observer None" by (simp add: observer_def)
  have h2: "run_loop ?T ?O 3 (1 / 2) [] None (always (3 / 4)) 1 1 1 (initial_state ?T ?O) = Inr ?s1"
    by code_simp
  have h3: "select_cell (always (3 / 4)) (calls ?s1) 1 3 [] 1 1 = ((Some 0, Some 0), 5)"
    by code_simp
  have h4: "read_cell (currentMatrix ?s1) (Some 0) (Some 0) = Inr (Num (1 / 2))"
    by code_simp
  have h5: "read_cell (originalMatrix ?T) (Some 0) (Some 0) = Inr (Num 0)"
    by code_simp
  have h6: "limit_move (Num (1 / 2)) (Num 0) ((if always (3 / 4) 5 < 1 / 2 then - 1 else 1) * (1 / 2))
       = Some (Num 1)"
    by code_simp
  have w: "write_cell (currentMatrix ?s1) (Some 0) (Some 0) (Num 1) = [[Num 1]]"
    by code_simp
  have e: "evaluateError [[Num 1]] ?O = \<lparr>penalty = 184041, contradictions = 1\<rparr>"
    by code_simp
  have j: "json_copy [[Num 1]] = [[Num 1]]"
    by code_simp
  from keep_or_revert [OF h1 h2 h3 h4 h5 h6] obtain st' where
    r: "run_loop ?T ?O 3 (1 / 2) [] None (always (3 / 4)) 1 1 (Suc 1) (initial_state ?T ?O) = Inr st'"
    and k: "let written = write_cell (currentMatrix ?s1) (Some 0) (Some 0) (Num 1);
             newEval = evaluateError written ?O
         in if penalty newEval \<le> penalty (currentEval ?s1) then
              currentMatrix st' = written \<and> currentEval st' = newEval
              \<and> (if penalty newEval < penalty (bestEval ?s1)
                  then bestMatrix st' = json_copy written \<and> bestEval st' = newEval
                  else bestMatrix st' = bestMatrix ?s1 \<and> bestEval st' = bestEval ?s1)
            else
              currentMatrix st' = write_cell written (Some 0) (Some 0) (Num (1 / 2))
              \<and> (\<forall>r' c'. read_cell (currentMatrix st') r' c' = read_cell (currentMatrix ?s1) r' c')
              \<and> currentEval st' = currentEval ?s1
              \<and> bestMatrix st' = bestMatrix ?s1 \<and> bestEval st' = bestEval ?s1"
    by blast
  from k have "currentMatrix st' = [[Num 1]] \<and> bestMatrix st' = [[Num 1]]
       \<and> bestEval st' = \<lparr>penalty = 184041, contradictions = 1\<rparr>"
    unfolding w Let_def e j by simp
  with r have c7: "\<exists>st'. run_loop ?T ?O 3 (1 / 2) [] None (always (3 / 4)) 1 1 (Suc 1) (initial_state ?T ?O) = Inr st'
       \<and> currentMatrix st' = [[Num 1]] \<and> bestMatrix st' = [[Num 1]]
       \<and> bestEval st' = \<lparr>penalty = 184041, contradictions = 1\<rparr>"
    by blast
  have c3: "select_cell (always (3 / 4)) 3 1 3 [] 1 1 = ((Some 0, Some 0), 5)"
    by code_simp
  have c4: "read_cell [[Num (1 / 2)]] (Some 0) (Some 0) = Inr (Num (1 / 2))"
    by code_simp
  show ?thesis
    by (intro conjI h1 h2 c3 c4 h5 h6 c7)
qed



text \<open>
  C5. With no callback, or one that only observes, the evaluation that \<open>optimize\<close>
  returns has a penalty no larger than the evaluation of the starting matrix, and from
  one iteration to the next the penalty of \<open>bestEval\<close> never increases.
\<close>

theorem best_penalty_never_increases:
  assumes "observer onProgress"
  shows "(optimize this obs its ss pri onProgress rnd = Inr (res, this') \<longrightarrow>
            penalty (res_eval res) \<le> penalty (evaluateError (matrix this) obs))
     \<and> (run_loop this obs its ss pri onProgress rnd numRows numCols n (initial_state this obs) = Inr st
          \<longrightarrow> run_loop this obs its ss pri onProgress rnd numRows numCols (Suc n) (initial_state this obs) = Inr st'
          \<longrightarrow> penalty (bestEval st') \<le> penalty (bestEval st))"
proof (intro conjI impI)
  assume "optimize this obs its ss pri onProgress rnd = Inr (res, this')"
  with assms have "optimize this obs its ss pri None rnd = Inr (res, this')"
    by (simp add: optimize_observer)
  from optimize_Inr [OF this] obtain row0 :: "cell list" and s where
    run: "run_loop this obs its ss pri None rnd (length (matrix this)) (length row0) its
       (initial_state this obs) = Inr s"
    and res: "res = \<lparr>res_matrix = bestMatrix s, res_eval = bestEval s\<rparr>"
    by blast
  from run have "penalty (bestEval s) \<le> penalty (bestEval (initial_state this obs))"
    by (rule run_loop_best_mono)
  with res show "penalty (res_eval res) \<le> penalty (evaluateError (matrix this) obs)"
    by (simp add: initial_state_def Let_def evaluateError_json_copy)
next
  assume a: "run_loop this obs its ss pri onProgress rnd numRows numCols n (initial_state this obs) = Inr st"
    and b: "run_loop this obs its ss pri onProgress rnd numRows numCols (Suc n) (initial_state this obs) = Inr st'"
  from a b have "iteration this obs its ss pri onProgress rnd numRows numCols n st = Inr st'"
    by simp
  moreover from a have "coherent st"
    using coherent_initial by (rule run_loop_coherent)
  ultimately have "iteration this obs its ss pri None rnd numRows numCols n st = Inr st'"
    using assms by (simp add: iteration_observer)
  then show "penalty (bestEval st') \<le> penalty (bestEval st)"
    by (rule iteration_best_mono)
qed

theorem best_penalty_never_increases_witness:
  "observer None
   \<and> optimize (CompatibilityOptimizer [[Num 0]])
       [\<lparr>obs_childId = Some 0, obs_f = Some 0, obs_ff = Some 0, obs_fm = Some 0,
         obs_m = Some 0, obs_mf = Some 0, obs_mm = Some 0, obs_s3 = 0, obs_s2 = 0,
         obs_noble = None, correctSymbol = Crown\<rparr>] 3 (1 / 2) [] None (always (3 / 4))
     = Inr (\<lparr>res_matrix = [[Num (3 / 2)]],
              res_eval = \<lparr>penalty = 724201 / 4, contradictions = 1\<rparr>\<rparr>,
            \<lparr>originalMatrix = [[Num 0]], matrix = [[Num (3 / 2)]]\<rparr>)
   \<and> penalty (evaluateError (matrix (CompatibilityOptimizer [[Num 0]]))
       [\<lparr>obs_childId = Some 0, obs_f = Some 0, obs_ff = Some 0, obs_fm = Some 0,
         obs_m = Some 0, obs_mf = Some 0, obs_mm = Some 0, obs_s3 = 0, obs_s2 = 0,
         obs_noble = None, correctSymbol = Crown\<rparr>]) = 190096
   \<and> (724201 / 4 :: rat) \<le> 190096
   \<and> (184041 :: rat) \<le> 748225 / 4"
proof -
  let ?T = "CompatibilityOptimizer [[Num 0]]"
  let ?O = "[\<lparr>obs_childId = Some 0, obs_f = Some 0, obs_ff = Some 0, obs_fm = Some 0,
         obs_m = Some 0, obs_mf = Some 0, obs_mm = Some 0, obs_s3 = 0, obs_s2 = 0,
         obs_noble = None, correctSymbol = Crown\<rparr>]"
  let ?R = "\<lparr>res_matrix = [[Num (3 / 2)]],
              res_eval = \<lparr>penalty = 724201 / 4, contradictions = 1\<rparr>\<rparr>"
  let ?T' = "\<lparr>originalMatrix = [[Num 0]], matrix = [[Num (3 / 2)]]\<rparr>"
  let ?s1 = "\<lparr>currentMatrix = [[Num (1 / 2)]],
        currentEval = \<lparr>penalty = 748225 / 4, contradictions = 1\<rparr>,
        bestMatrix = [[Num (1 / 2)]],
        bestEval = \<lparr>penalty = 748225 / 4, contradictions = 1\<rparr>,
        shared = True, calls = 3\<rparr>"
  let ?s2 = "\<lparr>currentMatrix = [[Num 1]],
        currentEval = \<lparr>penalty = 184041, contradictions = 1\<rparr>,
        bestMatrix = [[Num 1]],
        bestEval = \<lparr>penalty = 184041, contradictions = 1\<rparr>,
        shared = True, calls = 6\<rparr>"
  have ob: "observer None"
    by (simp add: observer_def)
  have run: "optimize ?T ?O 3 (1 / 2) [] None (always (3 / 4)) = Inr (?R, ?T')"
    by code_simp
  have one: "run_loop ?T ?O 3 (1 / 2) [] None (always (3 / 4)) 1 1 1 (initial_state ?T ?O) = Inr ?s1"
    by code_simp
  have two: "run_loop ?T ?O 3 (1 / 2) [] None (always (3 / 4)) 1 1 (Suc 1) (initial_state ?T ?O)
      = Inr ?s2"
    by code_simp
  have ev: "penalty (evaluateError (matrix ?T) ?O) = 190096"
    by code_simp
  note inst = best_penalty_never_increases [OF ob, of ?T ?O 3 "1 / 2" "[]" "always (3 / 4)" ?R ?T'
      1 1 1 ?s1 ?s2]
  from inst run have "penalty (res_eval ?R) \<le> penalty (evaluateError (matrix ?T) ?O)"
    by blast
  then have a: "(724201 / 4 :: rat) \<le> 190096"
    unfolding ev by simp
  from inst one two have "penalty (bestEval ?s2) \<le> penalty (bestEval ?s1)"
    by blast
  then have b: "(184041 :: rat) \<le> 748225 / 4"
    by simp
  show ?thesis
    by (intro conjI ob run ev a b)
qed

text \<open>
  C6. When the matrix is a table whose rows have the length of row 0, that length is
  not 0, and every priority entry is a column index, then entries that are numbers at
  least 0 in \<open>originalMatrix\<close> and in the matrix stay so: after every iteration in the
  working and the best matrix, and in what \<open>optimize\<close> returns and keeps.
\<close>

theorem entries_stay_nonneg:
  assumes "unit_range rnd"
    and "nonneg_matrix (originalMatrix this)" and "nonneg_matrix (matrix this)"
    and "js_nth (matrix this) (Some 0) = Some row0" and "row0 \<noteq> []"
    and "table (matrix this) (length row0)"
    and "indices_below pri (length row0)"
  shows "(run_loop this obs its ss pri onProgress rnd (length (matrix this)) (length row0) n
            (initial_state this obs) = Inr st
          \<longrightarrow> nonneg_matrix (currentMatrix st) \<and> nonneg_matrix (bestMatrix st)
              \<and> nonneg_matrix (originalMatrix this))
     \<and> (optimize this obs its ss pri onProgress rnd = Inr (res, this')
          \<longrightarrow> nonneg_matrix (res_matrix res) \<and> nonneg_matrix (matrix this')
              \<and> nonneg_matrix (originalMatrix this'))"
proof -
  let ?st0 = "initial_state this obs"
  from assms(3) have jc: "json_copy (matrix this) = matrix this" by (rule nonneg_json_copy)
  then have init: "nonneg_matrix (currentMatrix ?st0)" "table (currentMatrix ?st0) (length row0)"
    "nonneg_matrix (bestMatrix ?st0)"
    using assms(3,6) by (simp_all add: initial_state_def Let_def)
  from assms(5) have pos: "0 < length row0" by simp
  have inv: "nonneg_matrix (currentMatrix s) \<and> table (currentMatrix s) (length row0)
       \<and> nonneg_matrix (bestMatrix s)"
    if "run_loop this obs its ss pri onProgress rnd nr (length row0) k ?st0 = Inr s" for nr k s
    using assms(1) assms(7) pos assms(2) that init by (rule run_loop_nonneg)
  have loop: "run_loop this obs its ss pri onProgress rnd (length (matrix this)) (length row0) n
            ?st0 = Inr st
          \<longrightarrow> nonneg_matrix (currentMatrix st) \<and> nonneg_matrix (bestMatrix st)
              \<and> nonneg_matrix (originalMatrix this)"
  proof
    assume "run_loop this obs its ss pri onProgress rnd (length (matrix this)) (length row0) n
            ?st0 = Inr st"
    from inv [OF this] assms(2)
    show "nonneg_matrix (currentMatrix st) \<and> nonneg_matrix (bestMatrix st)
              \<and> nonneg_matrix (originalMatrix this)" by simp
  qed
  have returned: "optimize this obs its ss pri onProgress rnd = Inr (res, this')
          \<longrightarrow> nonneg_matrix (res_matrix res) \<and> nonneg_matrix (matrix this')
              \<and> nonneg_matrix (originalMatrix this')"
  proof
    assume "optimize this obs its ss pri onProgress rnd = Inr (res, this')"
    from optimize_Inr [OF this] obtain row1 s where
      r1: "js_nth (json_copy (matrix this)) (Some 0) = Some row1"
      and s1: "run_loop this obs its ss pri onProgress rnd (length (matrix this)) (length row1) its
         ?st0 = Inr s"
      and s23: "res = \<lparr>res_matrix = bestMatrix s, res_eval = bestEval s\<rparr>"
        "this' = this\<lparr>matrix := bestMatrix s\<rparr>"
      by blast
    from r1 jc assms(4) have "row1 = row0" by simp
    with s1 s23 have
      s: "run_loop this obs its ss pri onProgress rnd (length (matrix this)) (length row0) its
         ?st0 = Inr s"
      "res = \<lparr>res_matrix = bestMatrix s, res_eval = bestEval s\<rparr>"
      "this' = this\<lparr>matrix := bestMatrix s\<rparr>"
      by simp_all
    from inv [OF s(1)] s(2,3) assms(2)
    show "nonneg_matrix (res_matrix res) \<and> nonneg_matrix (matrix this')
              \<and> nonneg_matrix (originalMatrix this')" by simp
  qed
  from loop returned show ?thesis ..
qed

theorem entries_stay_nonneg_witness:
  "unit_range (always (1 / 4))
   \<and> nonneg_matrix (originalMatrix (CompatibilityOptimizer [[Num 1, Num 2], [Num 3, Num 4]]))
   \<and> nonneg_matrix (matrix (CompatibilityOptimizer [[Num 1, Num 2], [Num 3, Num 4]]))
   \<and> js_nth (matrix (CompatibilityOptimizer [[Num 1, Num 2], [Num 3, Num 4]])) (Some 0)
       = Some [Num 1, Num 2]
   \<and> [Num 1, Num 2] \<noteq> []
   \<and> table (matrix (CompatibilityOptimizer [[Num 1, Num 2], [Num 3, Num 4]])) (length [Num 1, Num 2])
   \<and> indices_below [1] (length [Num 1, Num 2])
   \<and> run_loop (CompatibilityOptimizer [[Num 1, Num 2], [Num 3, Num 4]]) [] 4 1 [1] None
       (always (1 / 4)) 2 2 4
       (initial_state (CompatibilityOptimizer [[Num 1, Num 2], [Num 3, Num 4]]) [])
     = Inr \<lparr>currentMatrix = [[Num 0, Num 2], [Num 1, Num 4]],
            currentEval = \<lparr>penalty = 0, contradictions = 0\<rparr>,
            bestMatrix = [[Num 1, Num 2], [Num 3, Num 4]],
            bestEval = \<lparr>penalty = 0, contradictions = 0\<rparr>,
            shared = False, calls = 16\<rparr>
   \<and> nonneg_matrix [[Num 0, Num 2], [Num 1, Num 4]]
   \<and> nonneg_matrix [[Num 1, Num 2], [Num 3, Num 4]]"
proof -
  let ?T = "CompatibilityOptimizer [[Num 1, Num 2], [Num 3, Num 4]]"
  let ?st = "\<lparr>currentMatrix = [[Num 0, Num 2], [Num 1, Num 4]],
            currentEval = \<lparr>penalty = 0, contradictions = 0\<rparr>,
            bestMatrix = [[Num 1, Num 2], [Num 3, Num 4]],
            bestEval = \<lparr>penalty = 0, contradictions = 0\<rparr>,
            shared = False, calls = 16\<rparr>"
  have h1: "unit_range (always (1 / 4))" by (simp add: unit_range_def always_def)
  have h2: "nonneg_matrix (originalMatrix ?T)" by code_simp
  have h3: "nonneg_matrix (matrix ?T)" by code_simp
  have h4: "js_nth (matrix ?T) (Some 0) = Some [Num 1, Num 2]" by code_simp
  have h5: "[Num 1, Num 2] \<noteq> []" by simp
  have h6: "table (matrix ?T) (length [Num 1, Num 2])" by code_simp
  have h7: "indices_below [1] (length [Num 1, Num 2])" by code_simp
  have run: "run_loop ?T [] 4 1 [1] None (always (1 / 4)) (length (matrix ?T)) (length [Num 1, Num 2]) 4
       (initial_state ?T []) = Inr ?st"
    by code_simp
  from entries_stay_nonneg [OF h1 h2 h3 h4 h5 h6 h7, of "[]" 4 1 None 4 ?st] run
  have "nonneg_matrix (currentMatrix ?st) \<and> nonneg_matrix (bestMatrix ?st)"
    by blast
  then have c9: "nonneg_matrix [[Num 0, Num 2], [Num 1, Num 4]]"
    and c10: "nonneg_matrix [[Num 1, Num 2], [Num 3, Num 4]]"
    by simp_all
  have c8: "run_loop ?T [] 4 1 [1] None (always (1 / 4)) 2 2 4 (initial_state ?T []) = Inr ?st"
    by code_simp
  show ?thesis
    by (intro conjI h1 h2 h3 h4 h5 h6 h7 c8 c9 c10)
qed

text \<open>Stated for every matrix with entries at least 0, the property fails when the
  column that is chosen does not exist in the row: the slot reads \<open>undefined\<close>, the
  proposal is \<open>NaN\<close>, no comparison rejects it, and it is stored.\<close>

theorem undefined_slot_becomes_NaN:
  "nonneg_matrix (originalMatrix (CompatibilityOptimizer [[Num 1], [Num 2]]))
   \<and> nonneg_matrix (matrix (CompatibilityOptimizer [[Num 1], [Num 2]]))
   \<and> run_loop (CompatibilityOptimizer [[Num 1], [Num 2]]) [] 1 (1 / 2) [1] None (always (3 / 4))
       2 1 1 (initial_state (CompatibilityOptimizer [[Num 1], [Num 2]]) [])
     = Inr \<lparr>currentMatrix = [[Num 1], [Num 2, NaN]],
            currentEval = \<lparr>penalty = 0, contradictions = 0\<rparr>,
            bestMatrix = [[Num 1], [Num 2]],
            bestEval = \<lparr>penalty = 0, contradictions = 0\<rparr>,
            shared = False, calls = 5\<rparr>
   \<and> \<not> nonneg_matrix [[Num 1], [Num 2, NaN]]"
  by code_simp







text \<open>
  C10. With no observations, whenever \<open>optimize\<close> returns it returns the matrix the
  optimizer holds and the evaluation \<open>{penalty: 0, contradictions: 0}\<close>, and leaves the
  optimizer as it was: no trial improves on the initial best. It does return when the
  matrix has at least one row, \<open>originalMatrix\<close> has as many rows, and the priority
  entries are row indices.
\<close>

theorem no_observations_no_change:
  assumes "observer onProgress" and "json_matrix (matrix this)"
  shows "(optimize this [] its ss pri onProgress rnd = Inr (res, this') \<longrightarrow>
            res = \<lparr>res_matrix = matrix this,
                    res_eval = \<lparr>penalty = 0, contradictions = 0\<rparr>\<rparr> \<and> this' = this)
     \<and> (unit_range rnd \<longrightarrow> matrix this \<noteq> [] \<longrightarrow>
          length (matrix this) \<le> length (originalMatrix this) \<longrightarrow>
          indices_below pri (length (matrix this)) \<longrightarrow>
            optimize this [] its ss pri onProgress rnd =
              Inr (\<lparr>res_matrix = matrix this,
                    res_eval = \<lparr>penalty = 0, contradictions = 0\<rparr>\<rparr>, this))"
proof -
  let ?st0 = "initial_state this []"
  let ?nr = "length (matrix this)"
  let ?zero = "\<lparr>penalty = 0, contradictions = 0\<rparr>"
  have cur: "currentMatrix ?st0 = matrix this" and best: "bestMatrix ?st0 = matrix this"
    and evs: "currentEval ?st0 = ?zero" "bestEval ?st0 = ?zero"
    using assms(2) by (simp_all add: initial_state_def Let_def json_copy_id evaluateError_Nil)
  have same: "optimize this [] its ss pri onProgress rnd = optimize this [] its ss pri None rnd"
    using assms(1) by (rule optimize_observer)
  have returned: "optimize this [] its ss pri onProgress rnd = Inr (res, this') \<longrightarrow>
            res = \<lparr>res_matrix = matrix this, res_eval = ?zero\<rparr> \<and> this' = this"
  proof
    assume "optimize this [] its ss pri onProgress rnd = Inr (res, this')"
    with same have "optimize this [] its ss pri None rnd = Inr (res, this')" by simp
    from optimize_Inr [OF this] obtain row0 :: "cell list" and st where
      run: "run_loop this [] its ss pri None rnd ?nr (length row0) its ?st0 = Inr st"
      and res: "res = \<lparr>res_matrix = bestMatrix st, res_eval = bestEval st\<rparr>"
        "this' = this\<lparr>matrix := bestMatrix st\<rparr>"
      by blast
    from run_loop_no_observations [OF run evs] best
    have "bestEval st = ?zero" "bestMatrix st = matrix this" by simp_all
    with res show "res = \<lparr>res_matrix = matrix this, res_eval = ?zero\<rparr> \<and> this' = this"
      by simp
  qed
  have total: "unit_range rnd \<longrightarrow> matrix this \<noteq> [] \<longrightarrow>
          length (matrix this) \<le> length (originalMatrix this) \<longrightarrow>
          indices_below pri (length (matrix this)) \<longrightarrow>
            optimize this [] its ss pri onProgress rnd =
              Inr (\<lparr>res_matrix = matrix this, res_eval = ?zero\<rparr>, this)"
  proof (intro impI)
    assume rnd: "unit_range rnd" and ne: "matrix this \<noteq> []"
      and rows: "length (matrix this) \<le> length (originalMatrix this)"
      and pri: "indices_below pri (length (matrix this))"
    from ne obtain row0 where row0: "js_nth (matrix this) (Some 0) = Some row0"
      by (cases "matrix this") (simp_all add: js_nth_def)
    from ne have pos: "0 < ?nr" by simp
    from run_loop_total [OF rnd pri pos _ rows, of ?st0 "[]" its ss None "length row0" its]
    obtain st where st: "run_loop this [] its ss pri None rnd ?nr (length row0) its ?st0 = Inr st"
      using cur by auto
    from run_loop_no_observations [OF st evs] best
    have "bestEval st = ?zero" "bestMatrix st = matrix this"
      by simp_all
    with st row0 cur have "optimize this [] its ss pri None rnd =
           Inr (\<lparr>res_matrix = matrix this, res_eval = ?zero\<rparr>, this)"
      by (simp add: optimize_def Let_def)
    with same show "optimize this [] its ss pri onProgress rnd =
           Inr (\<lparr>res_matrix = matrix this, res_eval = ?zero\<rparr>, this)"
      by simp
  qed
  from returned total show ?thesis ..
qed

theorem no_observations_no_change_witness:
  "observer None \<and> unit_range (always (1 / 4))
   \<and> json_matrix (matrix (CompatibilityOptimizer [[Num 1, Num 2], [Num 3, Num 4]]))
   \<and> matrix (CompatibilityOptimizer [[Num 1, Num 2], [Num 3, Num 4]]) \<noteq> []
   \<and> length (matrix (CompatibilityOptimizer [[Num 1, Num 2], [Num 3, Num 4]]))
       \<le> length (originalMatrix (CompatibilityOptimizer [[Num 1, Num 2], [Num 3, Num 4]]))
   \<and> indices_below [1]
       (length (matrix (CompatibilityOptimizer [[Num 1, Num 2], [Num 3, Num 4]])))
   \<and> optimize (CompatibilityOptimizer [[Num 1, Num 2], [Num 3, Num 4]])
       [] 4 (1 / 2) [1] None (always (1 / 4))
     = Inr (\<lparr>res_matrix = [[Num 1, Num 2], [Num 3, Num 4]],
              res_eval = \<lparr>penalty = 0, contradictions = 0\<rparr>\<rparr>,
            CompatibilityOptimizer [[Num 1, Num 2], [Num 3, Num 4]])"
proof -
  let ?T = "CompatibilityOptimizer [[Num 1, Num 2], [Num 3, Num 4]]"
  have m: "matrix ?T = [[Num 1, Num 2], [Num 3, Num 4]]"
    "originalMatrix ?T = [[Num 1, Num 2], [Num 3, Num 4]]"
    by (simp_all add: CompatibilityOptimizer_def json_copy_def)
  have h1: "observer None" by (simp add: observer_def)
  have h2: "unit_range (always (1 / 4))" by (simp add: unit_range_def always_def)
  have h3: "json_matrix (matrix ?T)" by (simp add: m json_matrix_def)
  have h4: "matrix ?T \<noteq> []" by (simp add: m)
  have h5: "length (matrix ?T) \<le> length (originalMatrix ?T)" by (simp add: m)
  have h6: "indices_below [1] (length (matrix ?T))" by (simp add: m indices_below_def)
  from no_observations_no_change [OF h1 h3, of 4 "1 / 2" "[1]" "always (1 / 4)"] h2 h4 h5 h6
  have "optimize ?T [] 4 (1 / 2) [1] None (always (1 / 4)) =
      Inr (\<lparr>res_matrix = matrix ?T, res_eval = \<lparr>penalty = 0, contradictions = 0\<rparr>\<rparr>, ?T)"
    by blast
  then have run: "optimize ?T [] 4 (1 / 2) [1] None (always (1 / 4)) =
      Inr (\<lparr>res_matrix = [[Num 1, Num 2], [Num 3, Num 4]],
             res_eval = \<lparr>penalty = 0, contradictions = 0\<rparr>\<rparr>, ?T)"
    by (simp only: m)
  show ?thesis
    by (intro conjI h1 h2 h3 h4 h5 h6 run)
qed

text \<open>Stated for every priority list, the property fails for an entry that is not a row
  of the matrix: reading a slot of the missing row throws.\<close>

theorem priority_outside_matrix:
  "optimize (CompatibilityOptimizer [[Num 0]]) [] 1 (1 / 2) [5] None (always (1 / 4)) = Inl TypeError"
  by code_simp

end
